theory Spec2Isabelle
  imports Complex_Main "HOL-Library.Word"
begin

section \<open>Generalized task arithmetic merge (mergekit)\<close>

text \<open>
  A shallow embedding of \<^verbatim>\<open>mergekit/merge_methods/generalized_task_arithmetic.py\<close>.
  Tensor elements are real numbers: the arithmetic of the merge is modelled exactly, so
  rounding, NaN and Inf of the floating-point dtypes are outside the model, and a cast
  between floating-point dtypes (\<^verbatim>\<open>.to(base.dtype)\<close>) is the identity. The compact
  mask dtype \<^verbatim>\<open>torch.int8\<close> is modelled with machine words.
\<close>

subsection \<open>Tensors\<close>

datatype error = KeyError | IndexError | RuntimeError

text \<open>A tensor is its shape and its elements in row-major order.\<close>

datatype 'a tensor = Tensor (shape: "nat list") (data: "'a list")

definition numel :: "nat list \<Rightarrow> nat" where
  "numel s = prod_list s"

definition wf_tensor :: "'a tensor \<Rightarrow> bool" where
  "wf_tensor t = (length (data t) = numel (shape t))"

text \<open>
  Broadcasting of two shapes, on the reversed shapes (trailing axis first): axes are
  equal, or one of them is 1; anything else is torch's RuntimeError.
\<close>

fun broadcast_rev :: "nat list \<Rightarrow> nat list \<Rightarrow> error + nat list" where
  "broadcast_rev [] ys = Inr ys"
| "broadcast_rev xs [] = Inr xs"
| "broadcast_rev (x # xs) (y # ys) =
     (if x = y \<or> y = 1 then
        (case broadcast_rev xs ys of Inl e \<Rightarrow> Inl e | Inr r \<Rightarrow> Inr (x # r))
      else if x = 1 then
        (case broadcast_rev xs ys of Inl e \<Rightarrow> Inl e | Inr r \<Rightarrow> Inr (y # r))
      else Inl RuntimeError)"

definition broadcast_shapes :: "nat list \<Rightarrow> nat list \<Rightarrow> error + nat list" where
  "broadcast_shapes s t =
     (case broadcast_rev (rev s) (rev t) of Inl e \<Rightarrow> Inl e | Inr r \<Rightarrow> Inr (rev r))"

text \<open>
  The flat index in a tensor of reversed shape \<open>s\<close> that the flat index \<open>k\<close> of the
  broadcast result reads: \<open>t\<close> is the reversed result shape, an axis of size 1 is read
  at 0, and a missing leading axis is dropped.
\<close>

fun src_index :: "nat list \<Rightarrow> nat list \<Rightarrow> nat \<Rightarrow> nat" where
  "src_index [] t k = 0"
| "src_index (d # s) [] k = 0"
| "src_index (d # s) (e # t) k =
     (if d = 1 then 0 else k mod e) + d * src_index s t (k div e)"

definition expand :: "nat list \<Rightarrow> 'a tensor \<Rightarrow> 'a list" where
  "expand t x =
     map (\<lambda>k. data x ! src_index (rev (shape x)) (rev t) k) [0..<numel t]"

text \<open>
  An elementwise binary operation. Equal shapes are combined element by element;
  different shapes are broadcast first, or raise.
\<close>

definition tensor_op ::
  "('a \<Rightarrow> 'b \<Rightarrow> 'c) \<Rightarrow> 'a tensor \<Rightarrow> 'b tensor \<Rightarrow> error + 'c tensor" where
  "tensor_op f x y =
     (if shape x = shape y then Inr (Tensor (shape x) (map2 f (data x) (data y)))
      else
        (case broadcast_shapes (shape x) (shape y) of
           Inl e \<Rightarrow> Inl e
         | Inr s \<Rightarrow> Inr (Tensor s (map2 f (expand s x) (expand s y)))))"

text \<open>
  \<^verbatim>\<open>x[:r, :c]\<close>: the leading block of the first two axes. A tensor of fewer than
  two axes raises IndexError (too many indices).
\<close>

definition slice2 :: "nat \<Rightarrow> nat \<Rightarrow> 'a tensor \<Rightarrow> error + 'a tensor" where
  "slice2 r c x =
     (case shape x of
        a # b # rest \<Rightarrow>
          (let inner = numel rest
           in Inr (Tensor (min r a # min c b # rest)
                (concat (map (\<lambda>i. take (min c b * inner) (drop (i * (b * inner)) (data x)))
                   [0..<min r a]))))
      | _ \<Rightarrow> Inl IndexError)"

text \<open>
  \<^verbatim>\<open>torch.stack(ts, dim=0)\<close>: the tensors must be at least one and of one shape. The
  stacked tensor is kept as the shape of a row and the list of its rows.
\<close>

definition stack :: "'a tensor list \<Rightarrow> error + (nat list \<times> 'a list list)" where
  "stack ts =
     (case ts of
        [] \<Rightarrow> Inl RuntimeError
      | t # _ \<Rightarrow>
          (if list_all (\<lambda>u. shape u = shape t) ts then Inr (shape t, map data ts)
           else Inl RuntimeError))"

text \<open>\<^verbatim>\<open>.sum(dim=0)\<close> of a stacked tensor of rows with \<open>n\<close> elements each.\<close>

definition sum_dim0 :: "nat \<Rightarrow> ('a::comm_monoid_add) list list \<Rightarrow> 'a list" where
  "sum_dim0 n rows = map (\<lambda>j. sum_list (map (\<lambda>r. r ! j) rows)) [0..<n]"

subsection \<open>The arithmetic of a dtype\<close>

text \<open>
  The merge computes in the dtype of the base tensor. What that dtype does is a record
  of operations on its values: the four arithmetic operations on elements, the sign,
  the reduction \<^verbatim>\<open>.sum(dim=0)\<close> of one column of a stack, the comparisons the code
  makes (\<^verbatim>\<open>>= 0\<close>, \<^verbatim>\<open>.abs() < 1e-8\<close>, \<^verbatim>\<open>==\<close>), the conversion of a Python number
  (or of a boolean, through 0 and 1) to the dtype, and the cast to \<^verbatim>\<open>torch.int8\<close>.
  Every tensor of one call is held in that dtype. Two instances follow: exact arithmetic
  on the reals, and binary floating point with rounding, infinities and NaN.
\<close>

record 'a dtype_ops =
  op_add :: "'a \<Rightarrow> 'a \<Rightarrow> 'a"
  op_sub :: "'a \<Rightarrow> 'a \<Rightarrow> 'a"
  op_mul :: "'a \<Rightarrow> 'a \<Rightarrow> 'a"
  op_div :: "'a \<Rightarrow> 'a \<Rightarrow> 'a"
  op_sign :: "'a \<Rightarrow> 'a"
  op_sum :: "'a list \<Rightarrow> 'a"
  op_ge0 :: "'a \<Rightarrow> bool"
  op_lt_eps :: "'a \<Rightarrow> bool"
  op_eq :: "'a \<Rightarrow> 'a \<Rightarrow> bool"
  op_scalar :: "real \<Rightarrow> 'a"
  op_int8 :: "'a \<Rightarrow> 8 word"

text \<open>\<^verbatim>\<open>.sum(dim=0)\<close> of a stack of rows of \<open>n\<close> elements, in the dtype.\<close>

definition sum_dim0_in :: "'a dtype_ops \<Rightarrow> nat \<Rightarrow> 'a list list \<Rightarrow> 'a list" where
  "sum_dim0_in ops n rows = map (\<lambda>j. op_sum ops (map (\<lambda>r. r ! j) rows)) [0..<n]"

subsection \<open>The consensus mask\<close>

text \<open>
  The dtype the signs are held in: \<^verbatim>\<open>torch.int8\<close>, or the floating-point dtype of the
  deltas.
\<close>

datatype dtype = Int8 | Float

text \<open>
  \<^verbatim>\<open>(b).to(mask_dtype) * 2 - 1\<close> in either dtype, and \<^verbatim>\<open>sign.sum(dim=0)\<close> of int8
  signs, which torch accumulates in int64. The stack \<^verbatim>\<open>delta\<close> is the list of its
  rows and \<open>n\<close> the number of elements of a row; the result is the boolean tensor
  \<^verbatim>\<open>sign == majority_sign\<close>, row by row.
\<close>

definition majority_in :: "'a dtype_ops \<Rightarrow> bool \<Rightarrow> 'a" where
  "majority_in ops b =
     op_sub ops (op_mul ops (op_scalar ops (of_bool b)) (op_scalar ops 2)) (op_scalar ops 1)"

definition majority_i8 :: "bool \<Rightarrow> 8 word" where
  "majority_i8 b = (if b then 1 else 0) * 2 - 1"

definition promote_i64 :: "8 word \<Rightarrow> 64 word" where
  "promote_i64 w = scast w"

definition get_mask_in ::
  "'a dtype_ops \<Rightarrow> nat \<Rightarrow> 'a list list \<Rightarrow> string \<Rightarrow> dtype option \<Rightarrow>
   error + bool list list" where
  "get_mask_in ops n delta method mask_dtype =
     (let mask_dtype = (case mask_dtype of None \<Rightarrow> Float | Some d \<Rightarrow> d)
      in case mask_dtype of
        Float \<Rightarrow>
          (let sign = map (map (op_sign ops)) delta
           in if method = ''sum'' then
                (let sign_weight = sum_dim0_in ops n delta;
                     majority_sign = map (\<lambda>s. majority_in ops (op_ge0 ops s)) sign_weight
                 in Inr (map (\<lambda>row. map2 (op_eq ops) row majority_sign) sign))
              else if method = ''count'' then
                (let majority_sign =
                       map (\<lambda>s. majority_in ops (op_ge0 ops s)) (sum_dim0_in ops n sign)
                 in Inr (map (\<lambda>row. map2 (op_eq ops) row majority_sign) sign))
              else Inl RuntimeError)
      | Int8 \<Rightarrow>
          (let sign = map (map (\<lambda>x. op_int8 ops (op_sign ops x))) delta
           in if method = ''sum'' then
                (let sign_weight = sum_dim0_in ops n delta;
                     majority_sign = map (\<lambda>s. majority_i8 (op_ge0 ops s)) sign_weight
                 in Inr (map (\<lambda>row. map2 (=) row majority_sign) sign))
              else if method = ''count'' then
                (let majority_sign =
                       map (\<lambda>s. majority_i8 (0 \<le>s s)) (sum_dim0 n (map (map promote_i64) sign))
                 in Inr (map (\<lambda>row. map2 (=) row majority_sign) sign))
              else Inl RuntimeError))"

subsection \<open>Task vectors\<close>

text \<open>
  A model reference is a name. \<^verbatim>\<open>WeightInfo\<close> carries the parameter's name and the
  embedding flag; a descriptor is the dictionary \<^verbatim>\<open>d\<close> of \<^verbatim>\<open>get_task_vectors\<close>: the
  model, its delta and the per-model tensor parameters (none of which is named
  \<^verbatim>\<open>model\<close> or \<^verbatim>\<open>delta\<close>).
\<close>

type_synonym model_ref = string

record weight_info =
  name :: string
  is_embed :: bool

record 'a tv_info =
  model :: model_ref
  delta :: "'a tensor"
  params :: "string \<rightharpoonup> real"

datatype warning =
  UsingSubmatrix model_ref string
| SkippingSizeMismatch model_ref string

definition shape_at :: "nat list \<Rightarrow> nat \<Rightarrow> error + nat" where
  "shape_at s i = (if i < length s then Inr (s ! i) else Inl IndexError)"

text \<open>
  The shape handling of one non-base model (lines 260 to 268): the tensor to take the
  delta of, or \<open>None\<close> when the model is skipped, and the warning logged.
\<close>

definition fit_shape ::
  "weight_info \<Rightarrow> model_ref \<Rightarrow> 'a tensor \<Rightarrow> 'a tensor \<Rightarrow>
   error + ('a tensor option \<times> warning list)" where
  "fit_shape wi m base x =
     (if shape x \<noteq> shape base then
        (if is_embed wi then
           (case shape_at (shape base) 0 of
              Inl e \<Rightarrow> Inl e
            | Inr r \<Rightarrow>
                (case shape_at (shape base) 1 of
                   Inl e \<Rightarrow> Inl e
                 | Inr c \<Rightarrow>
                     (case slice2 r c x of
                        Inl e \<Rightarrow> Inl e
                      | Inr x' \<Rightarrow> Inr (Some x', [UsingSubmatrix m (name wi)]))))
         else Inr (None, [SkippingSizeMismatch m (name wi)]))
      else Inr (Some x, []))"

text \<open>
  The loop over the keys of the tensor map, in the map's order. The map is an
  association list read with \<open>map_of\<close>. The descriptors come out in the order they are
  appended, with the warnings of a call that returns. Deleting a consumed tensor from the
  map changes no later lookup (every key is visited once) and is left out.
\<close>

fun gtv_loop_in ::
  "'a dtype_ops \<Rightarrow> weight_info \<Rightarrow> model_ref \<Rightarrow> (model_ref \<rightharpoonup> 'a tensor) \<Rightarrow>
   (model_ref \<rightharpoonup> (string \<rightharpoonup> real)) \<Rightarrow> 'a tensor \<Rightarrow> model_ref list \<Rightarrow>
   error + ('a tv_info list \<times> warning list)" where
  "gtv_loop_in ops wi bm tensors tp base [] = Inr ([], [])"
| "gtv_loop_in ops wi bm tensors tp base (m # keys) =
     (if m = bm then gtv_loop_in ops wi bm tensors tp base keys
      else
        (case tensors m of
           None \<Rightarrow> Inl KeyError
         | Some x \<Rightarrow>
             (case fit_shape wi m base x of
                Inl e \<Rightarrow> Inl e
              | Inr (None, ws) \<Rightarrow>
                  (case gtv_loop_in ops wi bm tensors tp base keys of
                     Inl e \<Rightarrow> Inl e
                   | Inr (res, ws') \<Rightarrow> Inr (res, ws @ ws'))
              | Inr (Some x', ws) \<Rightarrow>
                  (case tensor_op (op_sub ops) x' base of
                     Inl e \<Rightarrow> Inl e
                   | Inr d \<Rightarrow>
                       (case tp m of
                          None \<Rightarrow> Inl KeyError
                        | Some ps \<Rightarrow>
                            (case gtv_loop_in ops wi bm tensors tp base keys of
                               Inl e \<Rightarrow> Inl e
                             | Inr (res, ws') \<Rightarrow>
                                 Inr (\<lparr>model = m, delta = d, params = ps\<rparr> # res,
                                      ws @ ws')))))))"

definition get_task_vectors_in ::
  "'a dtype_ops \<Rightarrow> weight_info \<Rightarrow> model_ref \<Rightarrow> (model_ref \<times> 'a tensor) list \<Rightarrow>
   (model_ref \<rightharpoonup> (string \<rightharpoonup> real)) \<Rightarrow>
   error + ('a tv_info list \<times> 'a tensor \<times> warning list)" where
  "get_task_vectors_in ops wi bm tensors tp =
     (let keys = map fst tensors
      in case map_of tensors bm of
           None \<Rightarrow> Inl KeyError
         | Some base \<Rightarrow>
             (case gtv_loop_in ops wi bm (map_of tensors) tp base keys of
                Inl e \<Rightarrow> Inl e
              | Inr (res, ws) \<Rightarrow> Inr (res, base, ws)))"

subsection \<open>The merge of one weight\<close>

text \<open>
  Modelled from the spec: the enum \<^verbatim>\<open>SparsificationMethod\<close> of \<^verbatim>\<open>mergekit.sparsify\<close>
  is not part of the sources at hand; its members are the methods the specification
  lists. Every member is a non-empty string, so a configured method is truthy.
\<close>

datatype sparsification_method =
  Magnitude | Magnitude_outliers | Rank_magnitude_sampling | Consensus_ta | Consensus_ties

text \<open>
  The primitives \<^verbatim>\<open>sparsify\<close> and \<^verbatim>\<open>get_tall_mask\<close> of \<^verbatim>\<open>mergekit.sparsify\<close> are
  parameters of the merge: \<^verbatim>\<open>sparsify(delta, density, method, rescale, gamma?, epsilon?)\<close>
  and \<^verbatim>\<open>get_tall_mask(delta, lambda, mixed_delta)\<close>.
\<close>

type_synonym 'a sparsify_fn =
  "'a tensor \<Rightarrow> real \<Rightarrow> sparsification_method \<Rightarrow> bool \<Rightarrow> real option \<Rightarrow> real option \<Rightarrow>
   'a tensor"

type_synonym 'a tall_mask_fn = "'a tensor \<Rightarrow> real \<Rightarrow> 'a tensor \<Rightarrow> bool tensor"

text \<open>
  \<^verbatim>\<open>GeneralizedTaskArithmeticMerge\<close> and the fields of \<^verbatim>\<open>GTATask\<close> that
  \<^verbatim>\<open>execute\<close> reads. The consensus method is a string enum (or \<open>None\<close>), true in
  a condition when it is a non-empty string.
\<close>

record gta_task =
  consensus_method :: "string option"
  sparsification_method :: "sparsification_method option"
  base_model :: model_ref
  weight_info :: weight_info
  tensor_parameters :: "model_ref \<rightharpoonup> (string \<rightharpoonup> real)"
  int8_mask :: bool
  normalize :: bool
  rescale :: bool

definition lookup :: "(string \<rightharpoonup> real) \<Rightarrow> string \<Rightarrow> error + real" where
  "lookup d k = (case d k of None \<Rightarrow> Inl KeyError | Some v \<Rightarrow> Inr v)"

text \<open>A loop or comprehension whose body may raise: the first error ends it.\<close>

fun map_err :: "('a \<Rightarrow> error + 'b) \<Rightarrow> 'a list \<Rightarrow> error + 'b list" where
  "map_err f [] = Inr []"
| "map_err f (x # xs) =
     (case f x of
        Inl e \<Rightarrow> Inl e
      | Inr y \<Rightarrow> (case map_err f xs of Inl e \<Rightarrow> Inl e | Inr ys \<Rightarrow> Inr (y # ys)))"

text \<open>
  Lines 165 to 188: the stack of deltas that is aggregated. With a method other than
  \<^verbatim>\<open>consensus_ta\<close> every descriptor's delta goes through \<^verbatim>\<open>sparsify\<close>.
\<close>

definition sparsify_one ::
  "'a sparsify_fn \<Rightarrow> sparsification_method \<Rightarrow> bool \<Rightarrow> 'a tv_info \<Rightarrow> error + 'a tensor" where
  "sparsify_one sparsify m resc tv =
     (case lookup (params tv) ''density'' of
        Inl e \<Rightarrow> Inl e
      | Inr density \<Rightarrow>
          Inr (sparsify (delta tv) density m resc (params tv ''gamma'') (params tv ''epsilon'')))"

definition stack_deltas ::
  "gta_task \<Rightarrow> 'a sparsify_fn \<Rightarrow> 'a tv_info list \<Rightarrow> error + (nat list \<times> 'a list list)" where
  "stack_deltas task sparsify tvs =
     (case sparsification_method task of
        None \<Rightarrow> stack (map delta tvs)
      | Some m \<Rightarrow>
          (if m \<noteq> Consensus_ta then
             (case map_err (sparsify_one sparsify m (rescale task)) tvs of
                Inl e \<Rightarrow> Inl e
              | Inr sparsified \<Rightarrow> stack sparsified)
           else stack (map delta tvs)))"

text \<open>
  \<^verbatim>\<open>deltas * weights\<close>, the weights unsqueezed to one per row, and the two products with
  the boolean mask, which enters a product as 0 or 1 of the dtype.
\<close>

definition weight_rows_in :: "'a dtype_ops \<Rightarrow> 'a list list \<Rightarrow> 'a list \<Rightarrow> 'a list list" where
  "weight_rows_in ops deltas weights =
     map2 (\<lambda>row w. map (\<lambda>x. op_mul ops x w) row) deltas weights"

definition mul_mask_in :: "'a dtype_ops \<Rightarrow> 'a list list \<Rightarrow> bool list list \<Rightarrow> 'a list list" where
  "mul_mask_in ops weighted_deltas msk =
     map2 (\<lambda>row mr. map2 (\<lambda>x b. op_mul ops x (op_scalar ops (of_bool b))) row mr)
       weighted_deltas msk"

definition weights_mul_mask_in ::
  "'a dtype_ops \<Rightarrow> 'a list \<Rightarrow> bool list list \<Rightarrow> 'a list list" where
  "weights_mul_mask_in ops weights msk =
     map2 (\<lambda>w mr. map (\<lambda>b. op_mul ops w (op_scalar ops (of_bool b))) mr) weights msk"

text \<open>Lines 205 to 207 and 209 to 211: the mixed delta and the guarded divisor.\<close>

definition mix_masked_in ::
  "'a dtype_ops \<Rightarrow> nat \<Rightarrow> 'a list list \<Rightarrow> 'a list \<Rightarrow> bool list list \<Rightarrow> 'a list \<times> 'a list" where
  "mix_masked_in ops n weighted_deltas weights msk =
     (let mixed_delta = sum_dim0_in ops n (mul_mask_in ops weighted_deltas msk);
          divisor = sum_dim0_in ops n (weights_mul_mask_in ops weights msk)
      in (mixed_delta,
          map (\<lambda>d. if op_eq ops d (op_scalar ops 0) then op_scalar ops 1 else d) divisor))"

definition mix_unmasked_in ::
  "'a dtype_ops \<Rightarrow> nat \<Rightarrow> 'a list list \<Rightarrow> 'a list \<Rightarrow> 'a list \<times> 'a" where
  "mix_unmasked_in ops n weighted_deltas weights =
     (let mixed_delta = sum_dim0_in ops n weighted_deltas;
          divisor = op_sum ops weights
      in (mixed_delta, if op_lt_eps ops divisor then op_scalar ops 1 else divisor))"

text \<open>Lines 197 to 214: sign consensus, mixing and normalization.\<close>

definition masked_path_in ::
  "'a dtype_ops \<Rightarrow> gta_task \<Rightarrow> string \<Rightarrow> nat \<Rightarrow> 'a list list \<Rightarrow> 'a list \<Rightarrow>
   error + 'a list" where
  "masked_path_in ops task method n weighted_deltas weights =
     (let mask_dtype = (if int8_mask task then Int8 else Float)
      in case get_mask_in ops n weighted_deltas method (Some mask_dtype) of
           Inl e \<Rightarrow> Inl e
         | Inr msk \<Rightarrow>
             (let (mixed_delta, divisor) = mix_masked_in ops n weighted_deltas weights msk
              in Inr (if normalize task then map2 (op_div ops) mixed_delta divisor
                      else mixed_delta)))"

definition unmasked_path_in ::
  "'a dtype_ops \<Rightarrow> gta_task \<Rightarrow> nat \<Rightarrow> 'a list list \<Rightarrow> 'a list \<Rightarrow> 'a list" where
  "unmasked_path_in ops task n weighted_deltas weights =
     (let (mixed_delta, divisor) = mix_unmasked_in ops n weighted_deltas weights
      in if normalize task then map (\<lambda>x. op_div ops x divisor) mixed_delta else mixed_delta)"

definition mix_deltas_in ::
  "'a dtype_ops \<Rightarrow> gta_task \<Rightarrow> nat \<Rightarrow> 'a list list \<Rightarrow> 'a list \<Rightarrow> error + 'a list" where
  "mix_deltas_in ops task n weighted_deltas weights =
     (case consensus_method task of
        None \<Rightarrow> Inr (unmasked_path_in ops task n weighted_deltas weights)
      | Some method \<Rightarrow>
          (if method \<noteq> [] then masked_path_in ops task method n weighted_deltas weights
           else Inr (unmasked_path_in ops task n weighted_deltas weights)))"

text \<open>Lines 216 to 221: the first descriptor's \<^verbatim>\<open>lambda\<close> scales the mixed delta.\<close>

definition lambda_scale_in ::
  "'a dtype_ops \<Rightarrow> gta_task \<Rightarrow> 'a tv_info list \<Rightarrow> 'a list \<Rightarrow> error + 'a list" where
  "lambda_scale_in ops task tvs mixed_delta =
     (if sparsification_method task = Some Rank_magnitude_sampling then
        (case tvs of
           [] \<Rightarrow> Inl IndexError
         | tv # _ \<Rightarrow>
             (case lookup (params tv) ''lambda'' of
                Inl e \<Rightarrow> Inl e
              | Inr lambda_factor \<Rightarrow>
                  Inr (map (\<lambda>x. op_mul ops x (op_scalar ops lambda_factor)) mixed_delta)))
      else Inr mixed_delta)"

text \<open>
  Lines 227 to 234: one tall mask per descriptor, stacked and counted, against the first
  descriptor's \<^verbatim>\<open>k\<close>. The count of a stack of booleans is an integer.
\<close>

definition tall_mask_one ::
  "'a tall_mask_fn \<Rightarrow> 'a tensor \<Rightarrow> 'a tv_info \<Rightarrow> error + bool tensor" where
  "tall_mask_one get_tall_mask mixed_delta tv =
     (case lookup (params tv) ''lambda'' of
        Inl e \<Rightarrow> Inl e
      | Inr l \<Rightarrow> Inr (get_tall_mask (delta tv) l mixed_delta))"

definition consensus_mask_of ::
  "'a tall_mask_fn \<Rightarrow> 'a tv_info list \<Rightarrow> 'a tensor \<Rightarrow> error + bool tensor" where
  "consensus_mask_of get_tall_mask tvs mixed_delta =
     (case map_err (tall_mask_one get_tall_mask mixed_delta) tvs of
        Inl e \<Rightarrow> Inl e
      | Inr tms \<Rightarrow>
          (case stack tms of
             Inl e \<Rightarrow> Inl e
           | Inr (s, tall_masks) \<Rightarrow>
               (case tvs of
                  [] \<Rightarrow> Inl IndexError
                | tv # _ \<Rightarrow>
                    (case lookup (params tv) ''k'' of
                       Inl e \<Rightarrow> Inl e
                     | Inr k \<Rightarrow>
                         Inr (Tensor s
                           (map (\<lambda>c. k \<le> real_of_int c)
                              (sum_dim0 (numel s) (map (map of_bool) tall_masks))))))))"

text \<open>Lines 223 to 235: the trim of the mixed delta by the consensus mask.\<close>

definition tall_mask_filter_in ::
  "'a dtype_ops \<Rightarrow> gta_task \<Rightarrow> 'a tall_mask_fn \<Rightarrow> 'a tv_info list \<Rightarrow> 'a tensor \<Rightarrow>
   error + 'a tensor" where
  "tall_mask_filter_in ops task get_tall_mask tvs mixed_delta =
     (if sparsification_method task = Some Consensus_ta
         \<or> sparsification_method task = Some Consensus_ties then
        (case consensus_mask_of get_tall_mask tvs mixed_delta of
           Inl e \<Rightarrow> Inl e
         | Inr consensus_mask \<Rightarrow>
             tensor_op (\<lambda>x b. op_mul ops x (op_scalar ops (of_bool b))) mixed_delta
               consensus_mask)
      else Inr mixed_delta)"

text \<open>
  \<^verbatim>\<open>GTATask.execute\<close> after the task vectors are collected (lines 162 to 237), and the
  whole of it. The weights are the descriptors' Python numbers, made a tensor of the
  dtype.
\<close>

definition merge_tvs_in ::
  "'a dtype_ops \<Rightarrow> gta_task \<Rightarrow> 'a sparsify_fn \<Rightarrow> 'a tall_mask_fn \<Rightarrow> 'a tv_info list \<Rightarrow>
   'a tensor \<Rightarrow> error + 'a tensor" where
  "merge_tvs_in ops task sparsify get_tall_mask tvs base =
     (if tvs = [] then Inr base
      else
        (case stack_deltas task sparsify tvs of
           Inl e \<Rightarrow> Inl e
         | Inr (s, deltas) \<Rightarrow>
             (case map_err (\<lambda>tv. lookup (params tv) ''weight'') tvs of
                Inl e \<Rightarrow> Inl e
              | Inr ws \<Rightarrow>
                  (let weights = map (op_scalar ops) ws;
                       weighted_deltas = weight_rows_in ops deltas weights
                   in case mix_deltas_in ops task (numel s) weighted_deltas weights of
                        Inl e \<Rightarrow> Inl e
                      | Inr mixed_delta \<Rightarrow>
                          (case lambda_scale_in ops task tvs mixed_delta of
                             Inl e \<Rightarrow> Inl e
                           | Inr mixed_delta \<Rightarrow>
                               (case tall_mask_filter_in ops task get_tall_mask tvs
                                       (Tensor s mixed_delta) of
                                  Inl e \<Rightarrow> Inl e
                                | Inr mixed_delta \<Rightarrow>
                                    tensor_op (op_add ops) base mixed_delta))))))"

definition execute_in ::
  "'a dtype_ops \<Rightarrow> gta_task \<Rightarrow> 'a sparsify_fn \<Rightarrow> 'a tall_mask_fn \<Rightarrow>
   (model_ref \<times> 'a tensor) list \<Rightarrow> error + 'a tensor" where
  "execute_in ops task sparsify get_tall_mask tensors =
     (case get_task_vectors_in ops (weight_info task) (base_model task) tensors
             (tensor_parameters task) of
        Inl e \<Rightarrow> Inl e
      | Inr (tvs, base, ws) \<Rightarrow> merge_tvs_in ops task sparsify get_tall_mask tvs base)"

subsection \<open>Exact arithmetic\<close>

text \<open>
  The dtype of exact real arithmetic: no rounding, no overflow, every value finite. A
  real is cast to int8 by truncation toward zero, then wrap-around. The names of the
  source stand for the merge in this dtype.
\<close>

definition to_int8 :: "real \<Rightarrow> 8 word" where
  "to_int8 x = word_of_int (if 0 \<le> x then \<lfloor>x\<rfloor> else \<lceil>x\<rceil>)"

definition exact_ops :: "real dtype_ops" where
  "exact_ops =
     \<lparr>op_add = (+), op_sub = (-), op_mul = (*), op_div = (/), op_sign = sgn,
      op_sum = sum_list, op_ge0 = (\<lambda>x. 0 \<le> x), op_lt_eps = (\<lambda>x. \<bar>x\<bar> < 1 / 10 ^ 8),
      op_eq = (=), op_scalar = (\<lambda>r. r), op_int8 = to_int8\<rparr>"

definition majority_f :: "bool \<Rightarrow> real" where
  "majority_f = majority_in exact_ops"

definition get_mask ::
  "nat \<Rightarrow> real list list \<Rightarrow> string \<Rightarrow> dtype option \<Rightarrow> error + bool list list" where
  "get_mask = get_mask_in exact_ops"

definition gtv_loop ::
  "weight_info \<Rightarrow> model_ref \<Rightarrow> (model_ref \<rightharpoonup> real tensor) \<Rightarrow>
   (model_ref \<rightharpoonup> (string \<rightharpoonup> real)) \<Rightarrow> real tensor \<Rightarrow> model_ref list \<Rightarrow>
   error + (real tv_info list \<times> warning list)" where
  "gtv_loop = gtv_loop_in exact_ops"

definition get_task_vectors ::
  "weight_info \<Rightarrow> model_ref \<Rightarrow> (model_ref \<times> real tensor) list \<Rightarrow>
   (model_ref \<rightharpoonup> (string \<rightharpoonup> real)) \<Rightarrow>
   error + (real tv_info list \<times> real tensor \<times> warning list)" where
  "get_task_vectors = get_task_vectors_in exact_ops"

definition weight_rows :: "real list list \<Rightarrow> real list \<Rightarrow> real list list" where
  "weight_rows = weight_rows_in exact_ops"

definition mul_mask :: "real list list \<Rightarrow> bool list list \<Rightarrow> real list list" where
  "mul_mask = mul_mask_in exact_ops"

definition weights_mul_mask :: "real list \<Rightarrow> bool list list \<Rightarrow> real list list" where
  "weights_mul_mask = weights_mul_mask_in exact_ops"

definition mix_masked ::
  "nat \<Rightarrow> real list list \<Rightarrow> real list \<Rightarrow> bool list list \<Rightarrow> real list \<times> real list" where
  "mix_masked = mix_masked_in exact_ops"

definition mix_unmasked :: "nat \<Rightarrow> real list list \<Rightarrow> real list \<Rightarrow> real list \<times> real" where
  "mix_unmasked = mix_unmasked_in exact_ops"

definition masked_path ::
  "gta_task \<Rightarrow> string \<Rightarrow> nat \<Rightarrow> real list list \<Rightarrow> real list \<Rightarrow> error + real list" where
  "masked_path = masked_path_in exact_ops"

definition unmasked_path ::
  "gta_task \<Rightarrow> nat \<Rightarrow> real list list \<Rightarrow> real list \<Rightarrow> real list" where
  "unmasked_path = unmasked_path_in exact_ops"

definition mix_deltas ::
  "gta_task \<Rightarrow> nat \<Rightarrow> real list list \<Rightarrow> real list \<Rightarrow> error + real list" where
  "mix_deltas = mix_deltas_in exact_ops"

definition lambda_scale ::
  "gta_task \<Rightarrow> real tv_info list \<Rightarrow> real list \<Rightarrow> error + real list" where
  "lambda_scale = lambda_scale_in exact_ops"

definition tall_mask_filter ::
  "gta_task \<Rightarrow> real tall_mask_fn \<Rightarrow> real tv_info list \<Rightarrow> real tensor \<Rightarrow>
   error + real tensor" where
  "tall_mask_filter = tall_mask_filter_in exact_ops"

definition merge_tvs ::
  "gta_task \<Rightarrow> real sparsify_fn \<Rightarrow> real tall_mask_fn \<Rightarrow> real tv_info list \<Rightarrow> real tensor \<Rightarrow>
   error + real tensor" where
  "merge_tvs = merge_tvs_in exact_ops"

definition execute ::
  "gta_task \<Rightarrow> real sparsify_fn \<Rightarrow> real tall_mask_fn \<Rightarrow> (model_ref \<times> real tensor) list \<Rightarrow>
   error + real tensor" where
  "execute = execute_in exact_ops"

subsection \<open>Auxiliary notions of the proofs\<close>

text \<open>The sign of a real as an integer, to relate the int8 signs to the float signs.\<close>

definition sign_int :: "real \<Rightarrow> int" where
  "sign_int x = (if 0 < x then 1 else if x < 0 then - 1 else 0)"

section \<open>The merge in exact arithmetic, written out\<close>

text \<open>
  In exact arithmetic every operation of the dtype is the operation on the reals, so
  each stage is the source's expression over the reals.
\<close>

lemma sum_dim0_in_exact: "sum_dim0_in exact_ops n rows = sum_dim0 n rows"
  by (simp add: sum_dim0_in_def sum_dim0_def exact_ops_def)

lemma majority_f_exact: "majority_f b = (if b then 1 else 0) * 2 - 1"
  by (simp add: majority_f_def majority_in_def exact_ops_def)

lemma majority_in_exact: "majority_in exact_ops = majority_f"
  by (simp add: majority_f_def)

lemma exact_ops_simps:
  "op_add exact_ops = (+)" "op_sub exact_ops = (-)" "op_mul exact_ops = (*)"
  "op_div exact_ops = (/)" "op_sign exact_ops = sgn" "op_sum exact_ops = sum_list"
  "op_ge0 exact_ops = (\<lambda>x. 0 \<le> x)" "op_lt_eps exact_ops = (\<lambda>x. \<bar>x\<bar> < 1 / 10 ^ 8)"
  "op_eq exact_ops = (=)" "op_scalar exact_ops = (\<lambda>r. r)" "op_int8 exact_ops = to_int8"
  by (simp_all add: exact_ops_def)

lemma get_mask_exact:
  "get_mask n ds method mask_dtype =
     (let mask_dtype = (case mask_dtype of None \<Rightarrow> Float | Some d \<Rightarrow> d)
      in case mask_dtype of
        Float \<Rightarrow>
          (let sign = map (map sgn) ds
           in if method = ''sum'' then
                (let sign_weight = sum_dim0 n ds;
                     majority_sign = map (\<lambda>s. majority_f (0 \<le> s)) sign_weight
                 in Inr (map (\<lambda>row. map2 (=) row majority_sign) sign))
              else if method = ''count'' then
                (let majority_sign = map (\<lambda>s. majority_f (0 \<le> s)) (sum_dim0 n sign)
                 in Inr (map (\<lambda>row. map2 (=) row majority_sign) sign))
              else Inl RuntimeError)
      | Int8 \<Rightarrow>
          (let sign = map (map (\<lambda>x. to_int8 (sgn x))) ds
           in if method = ''sum'' then
                (let sign_weight = sum_dim0 n ds;
                     majority_sign = map (\<lambda>s. majority_i8 (0 \<le> s)) sign_weight
                 in Inr (map (\<lambda>row. map2 (=) row majority_sign) sign))
              else if method = ''count'' then
                (let majority_sign =
                       map (\<lambda>s. majority_i8 (0 \<le>s s)) (sum_dim0 n (map (map promote_i64) sign))
                 in Inr (map (\<lambda>row. map2 (=) row majority_sign) sign))
              else Inl RuntimeError))"
  unfolding get_mask_def get_mask_in_def sum_dim0_in_exact majority_in_exact exact_ops_simps
  by (rule refl)

lemma gtv_loop_Nil [simp]: "gtv_loop wi bm tensors tp base [] = Inr ([], [])"
  by (simp add: gtv_loop_def)

lemma gtv_loop_Cons [simp]:
  "gtv_loop wi bm tensors tp base (m # keys) =
     (if m = bm then gtv_loop wi bm tensors tp base keys
      else
        (case tensors m of
           None \<Rightarrow> Inl KeyError
         | Some x \<Rightarrow>
             (case fit_shape wi m base x of
                Inl e \<Rightarrow> Inl e
              | Inr (None, ws) \<Rightarrow>
                  (case gtv_loop wi bm tensors tp base keys of
                     Inl e \<Rightarrow> Inl e
                   | Inr (res, ws') \<Rightarrow> Inr (res, ws @ ws'))
              | Inr (Some x', ws) \<Rightarrow>
                  (case tensor_op (-) x' base of
                     Inl e \<Rightarrow> Inl e
                   | Inr d \<Rightarrow>
                       (case tp m of
                          None \<Rightarrow> Inl KeyError
                        | Some ps \<Rightarrow>
                            (case gtv_loop wi bm tensors tp base keys of
                               Inl e \<Rightarrow> Inl e
                             | Inr (res, ws') \<Rightarrow>
                                 Inr (\<lparr>model = m, delta = d, params = ps\<rparr> # res,
                                      ws @ ws')))))))"
  unfolding gtv_loop_def gtv_loop_in.simps exact_ops_simps by (rule refl)

lemma get_task_vectors_exact:
  "get_task_vectors wi bm tensors tp =
     (let keys = map fst tensors
      in case map_of tensors bm of
           None \<Rightarrow> Inl KeyError
         | Some base \<Rightarrow>
             (case gtv_loop wi bm (map_of tensors) tp base keys of
                Inl e \<Rightarrow> Inl e
              | Inr (res, ws) \<Rightarrow> Inr (res, base, ws)))"
  unfolding get_task_vectors_def get_task_vectors_in_def gtv_loop_def by (rule refl)

lemma weight_rows_exact:
  "weight_rows deltas weights = map2 (\<lambda>row w. map (\<lambda>x. x * w) row) deltas weights"
  unfolding weight_rows_def weight_rows_in_def exact_ops_simps by (rule refl)

lemma mul_mask_exact:
  "mul_mask weighted_deltas msk =
     map2 (\<lambda>row mr. map2 (\<lambda>x b. x * of_bool b) row mr) weighted_deltas msk"
  unfolding mul_mask_def mul_mask_in_def exact_ops_simps by (rule refl)

lemma weights_mul_mask_exact:
  "weights_mul_mask weights msk = map2 (\<lambda>w mr. map (\<lambda>b. w * of_bool b) mr) weights msk"
  unfolding weights_mul_mask_def weights_mul_mask_in_def exact_ops_simps by (rule refl)

lemma mix_masked_exact:
  "mix_masked n weighted_deltas weights msk =
     (let mixed_delta = sum_dim0 n (mul_mask weighted_deltas msk);
          divisor = sum_dim0 n (weights_mul_mask weights msk)
      in (mixed_delta, map (\<lambda>d. if d = 0 then 1 else d) divisor))"
  unfolding mix_masked_def mix_masked_in_def sum_dim0_in_exact mul_mask_def
    weights_mul_mask_def exact_ops_simps
  by (rule refl)


lemma masked_path_exact:
  "masked_path task method n weighted_deltas weights =
     (let mask_dtype = (if int8_mask task then Int8 else Float)
      in case get_mask n weighted_deltas method (Some mask_dtype) of
           Inl e \<Rightarrow> Inl e
         | Inr msk \<Rightarrow>
             (let (mixed_delta, divisor) = mix_masked n weighted_deltas weights msk
              in Inr (if normalize task then map2 (/) mixed_delta divisor else mixed_delta)))"
  unfolding masked_path_def masked_path_in_def get_mask_def mix_masked_def exact_ops_simps
  by (rule refl)

lemma unmasked_path_exact:
  "unmasked_path task n weighted_deltas weights =
     (let (mixed_delta, divisor) = mix_unmasked n weighted_deltas weights
      in if normalize task then map (\<lambda>x. x / divisor) mixed_delta else mixed_delta)"
  unfolding unmasked_path_def unmasked_path_in_def mix_unmasked_def exact_ops_simps
  by (rule refl)

lemma mix_deltas_exact:
  "mix_deltas task n weighted_deltas weights =
     (case consensus_method task of
        None \<Rightarrow> Inr (unmasked_path task n weighted_deltas weights)
      | Some method \<Rightarrow>
          (if method \<noteq> [] then masked_path task method n weighted_deltas weights
           else Inr (unmasked_path task n weighted_deltas weights)))"
  unfolding mix_deltas_def mix_deltas_in_def masked_path_def unmasked_path_def by (rule refl)

lemma lambda_scale_exact:
  "lambda_scale task tvs mixed_delta =
     (if sparsification_method task = Some Rank_magnitude_sampling then
        (case tvs of
           [] \<Rightarrow> Inl IndexError
         | tv # _ \<Rightarrow>
             (case lookup (params tv) ''lambda'' of
                Inl e \<Rightarrow> Inl e
              | Inr lambda_factor \<Rightarrow> Inr (map (\<lambda>x. x * lambda_factor) mixed_delta)))
      else Inr mixed_delta)"
  unfolding lambda_scale_def lambda_scale_in_def exact_ops_simps by (rule refl)

lemma tall_mask_filter_exact:
  "tall_mask_filter task get_tall_mask tvs mixed_delta =
     (if sparsification_method task = Some Consensus_ta
         \<or> sparsification_method task = Some Consensus_ties then
        (case consensus_mask_of get_tall_mask tvs mixed_delta of
           Inl e \<Rightarrow> Inl e
         | Inr consensus_mask \<Rightarrow> tensor_op (\<lambda>x b. x * of_bool b) mixed_delta consensus_mask)
      else Inr mixed_delta)"
  unfolding tall_mask_filter_def tall_mask_filter_in_def exact_ops_simps by (rule refl)

lemma merge_tvs_exact:
  "merge_tvs task sparsify get_tall_mask tvs base =
     (if tvs = [] then Inr base
      else
        (case stack_deltas task sparsify tvs of
           Inl e \<Rightarrow> Inl e
         | Inr (s, deltas) \<Rightarrow>
             (case map_err (\<lambda>tv. lookup (params tv) ''weight'') tvs of
                Inl e \<Rightarrow> Inl e
              | Inr weights \<Rightarrow>
                  (let weighted_deltas = weight_rows deltas weights
                   in case mix_deltas task (numel s) weighted_deltas weights of
                        Inl e \<Rightarrow> Inl e
                      | Inr mixed_delta \<Rightarrow>
                          (case lambda_scale task tvs mixed_delta of
                             Inl e \<Rightarrow> Inl e
                           | Inr mixed_delta \<Rightarrow>
                               (case tall_mask_filter task get_tall_mask tvs
                                       (Tensor s mixed_delta) of
                                  Inl e \<Rightarrow> Inl e
                                | Inr mixed_delta \<Rightarrow> tensor_op (+) base mixed_delta))))))"
  unfolding merge_tvs_def merge_tvs_in_def weight_rows_def mix_deltas_def lambda_scale_def
    tall_mask_filter_def exact_ops_simps
  by (auto simp: Let_def split: sum.splits prod.splits)

lemma execute_exact:
  "execute task sparsify get_tall_mask tensors =
     (case get_task_vectors (weight_info task) (base_model task) tensors
             (tensor_parameters task) of
        Inl e \<Rightarrow> Inl e
      | Inr (tvs, base, ws) \<Rightarrow> merge_tvs task sparsify get_tall_mask tvs base)"
  unfolding execute_def execute_in_def get_task_vectors_def merge_tvs_def by (rule refl)

section \<open>Facts about the consensus mask\<close>

lemma ceiling_neg_one_real: "\<lceil>- 1 :: real\<rceil> = - 1"
  by (rule ceiling_unique) simp_all

lemma to_int8_sgn: "to_int8 (sgn x) = word_of_int (sign_int x)"
  by (simp add: to_int8_def sign_int_def sgn_real_def ceiling_neg_one_real)

lemma promote_sign: "promote_i64 (to_int8 (sgn x)) = word_of_int (sign_int x)"
  by (simp add: promote_i64_def to_int8_sgn sign_int_def)

lemma real_sign_int: "real_of_int (sign_int x) = sgn x"
  by (simp add: sign_int_def sgn_real_def)

lemma sum_word_of_int:
  "sum_list (map (\<lambda>x. word_of_int (f x)) xs) = (word_of_int (sum_list (map f xs)) :: 'a::len word)"
  by (induction xs) simp_all

lemma sum_sign_bound: "\<bar>sum_list (map (\<lambda>x. sign_int (f x)) xs)\<bar> \<le> int (length xs)"
  by (induction xs) (auto simp: sign_int_def)

text \<open>Fewer than \<open>2 ^ 63\<close> signs are summed in int64 without wrap-around.\<close>

lemma sint_sum_signs:
  assumes "length xs < 2 ^ 63"
  shows "sint (sum_list (map (\<lambda>x. promote_i64 (to_int8 (sgn (f x)))) xs))
         = sum_list (map (\<lambda>x. sign_int (f x)) xs)"
proof -
  let ?k = "sum_list (map (\<lambda>x. sign_int (f x)) xs)"
  have b: "\<bar>?k\<bar> \<le> int (length xs)" by (rule sum_sign_bound)
  have "int (length xs) < 2 ^ 63"
    using assms by (metis of_nat_less_iff of_nat_numeral of_nat_power)
  with b have r: "- (2 ^ 63) \<le> ?k" "?k < 2 ^ 63" by linarith+
  have "sint (word_of_int ?k :: 64 word) = ?k"
    using r by (simp add: sint_sbintrunc' signed_take_bit_int_eq_self)
  then show ?thesis by (simp add: promote_sign sum_word_of_int)
qed

lemma sle_sum_signs:
  assumes "length xs < 2 ^ 63"
  shows "(0 \<le>s sum_list (map (\<lambda>x. promote_i64 (to_int8 (sgn (f x)))) xs))
         = (0 \<le> sum_list (map (\<lambda>x. sgn (f x)) xs))"
proof -
  have "sum_list (map (\<lambda>x. sgn (f x)) xs)
        = real_of_int (sum_list (map (\<lambda>x. sign_int (f x)) xs))"
    by (induction xs) (simp_all add: real_sign_int)
  then show ?thesis
    by (simp add: word_sle_eq sint_sum_signs[OF assms])
qed

lemma int8_sign_eq: "(to_int8 (sgn x) = majority_i8 b) = (sgn x = majority_f b)"
proof -
  have "(word_of_int (sign_int x) = majority_i8 b) = (real_of_int (sign_int x) = majority_f b)"
    by (simp add: sign_int_def majority_i8_def majority_f_exact)
  then show ?thesis by (simp add: to_int8_sgn real_sign_int)
qed

lemma mask_row_int8:
  "map2 (=) (map (\<lambda>x. to_int8 (sgn x)) row) (map (\<lambda>s. majority_i8 (P s)) ss)
   = map2 (=) (map sgn row) (map (\<lambda>s. majority_f (P s)) ss)"
  by (simp add: zip_map_map split_beta int8_sign_eq)

lemma sum_dim0_signs_int8:
  assumes "\<forall>r\<in>set ds. length r = n" "length ds < 2 ^ 63"
  shows "map (\<lambda>s. majority_i8 (0 \<le>s s))
           (sum_dim0 n (map (map promote_i64) (map (map (\<lambda>x. to_int8 (sgn x))) ds)))
         = map (\<lambda>s. majority_i8 (0 \<le> s)) (sum_dim0 n (map (map sgn) ds))"
proof -
  have "(0 \<le>s sum_list (map (\<lambda>r. r ! j)
            (map (map promote_i64) (map (map (\<lambda>x. to_int8 (sgn x))) ds))))
        = (0 \<le> sum_list (map (\<lambda>r. r ! j) (map (map sgn) ds)))" if "j < n" for j
  proof -
    have a: "map (\<lambda>r. r ! j) (map (map promote_i64) (map (map (\<lambda>x. to_int8 (sgn x))) ds))
          = map (\<lambda>r. promote_i64 (to_int8 (sgn (r ! j)))) ds"
      using assms(1) that by simp
    have b: "map (\<lambda>r. r ! j) (map (map sgn) ds) = map (\<lambda>r. sgn (r ! j)) ds"
      using assms(1) that by simp
    show ?thesis unfolding a b by (rule sle_sum_signs[OF assms(2)])
  qed
  then show ?thesis by (simp add: sum_dim0_def)
qed

text \<open>The mask does not depend on the dtype the signs are held in.\<close>

lemma get_mask_int8_float:
  assumes "\<forall>r\<in>set ds. length r = n" "length ds < 2 ^ 63"
  shows "get_mask n ds method (Some Int8) = get_mask n ds method (Some Float)"
proof -
  have c: "map (\<lambda>row. map2 (=) row (map (\<lambda>s. majority_i8 (P s)) ss))
             (map (map (\<lambda>x. to_int8 (sgn x))) ds)
      = map (\<lambda>row. map2 (=) row (map (\<lambda>s. majority_f (P s)) ss)) (map (map sgn) ds)"
    for P and ss :: "real list"
    by (simp add: mask_row_int8)
  show ?thesis
    unfolding get_mask_exact Let_def
    by (simp add: sum_dim0_signs_int8[OF assms] c del: map_map)
qed



lemma majority_i8_nonzero: "majority_i8 b \<noteq> 0"
  by (simp add: majority_i8_def)

lemma majority_f_nonzero: "majority_f b \<noteq> 0"
  by (simp add: majority_f_exact)

lemma to_int8_zero: "to_int8 0 = 0"
  by (simp add: to_int8_def)

lemma get_mask_length:
  assumes "get_mask n ds method dt = Inr msk"
  shows "length msk = length ds"
  using assms
  by (auto simp: get_mask_exact Let_def split: option.splits dtype.splits if_splits)

lemma get_mask_row_length:
  assumes "get_mask n ds method dt = Inr msk" "i < length ds"
  shows "length (msk ! i) = min (length (ds ! i)) n"
  using assms
  by (auto simp: get_mask_exact Let_def sum_dim0_def split: option.splits dtype.splits if_splits)

lemma get_mask_zero_excluded:
  assumes "get_mask n ds method dt = Inr msk" "i < length ds" "j < n" "j < length (ds ! i)"
    "ds ! i ! j = 0"
  shows "\<not> msk ! i ! j"
  using assms
  by (auto simp: get_mask_exact Let_def sum_dim0_def majority_i8_nonzero majority_f_nonzero to_int8_zero
      split: option.splits dtype.splits if_splits)

section \<open>Facts about mixing\<close>



lemma sum_dim0_nth: "j < n \<Longrightarrow> sum_dim0 n rows ! j = sum_list (map (\<lambda>r. r ! j) rows)"
  by (simp add: sum_dim0_def)

lemma length_sum_dim0: "length (sum_dim0 n rows) = n"
  by (simp add: sum_dim0_def)





lemma masked_divisor:
  assumes "j < n"
  shows "snd (mix_masked n wds ws msk) ! j =
      (if sum_dim0 n (weights_mul_mask ws msk) ! j = 0 then 1
       else sum_dim0 n (weights_mul_mask ws msk) ! j)"
  using assms by (simp add: mix_masked_exact Let_def length_sum_dim0)


section \<open>Facts about the extraction and the single-model merge\<close>




section \<open>Facts about shapes and the mask dtype in the merge\<close>

lemma map_err_length: "map_err f xs = Inr ys \<Longrightarrow> length ys = length xs"
  by (induction xs arbitrary: ys) (auto split: sum.splits)

lemma map_err_set: "map_err f xs = Inr ys \<Longrightarrow> y \<in> set ys \<Longrightarrow> \<exists>x\<in>set xs. f x = Inr y"
  by (induction xs arbitrary: ys) (auto split: sum.splits)

lemma stack_Inr:
  assumes "stack ts = Inr (s, rows)"
  shows "rows = map data ts \<and> ts \<noteq> [] \<and> (\<forall>t\<in>set ts. shape t = s)"
  using assms by (auto simp: stack_def list_all_iff split: list.splits if_splits)

lemma stack_deltas_rows:
  assumes "stack_deltas task sparsify tvs = Inr (s, rows)"
    "\<forall>tv\<in>set tvs. wf_tensor (delta tv)"
    "\<forall>d x m r g e. wf_tensor d \<longrightarrow> wf_tensor (sparsify d x m r g e)"
  shows "length rows = length tvs \<and> (\<forall>r\<in>set rows. length r = numel s)"
proof -
  have raw: "length rows = length tvs \<and> (\<forall>r\<in>set rows. length r = numel s)"
    if "stack (map delta tvs) = Inr (s, rows)"
    using stack_Inr[OF that] assms(2) by (auto simp: wf_tensor_def)
  have sp: "length rows = length tvs \<and> (\<forall>r\<in>set rows. length r = numel s)"
    if "map_err (sparsify_one sparsify m (rescale task)) tvs = Inr sds" "stack sds = Inr (s, rows)"
    for m sds
  proof -
    note me = that(1)
    have "wf_tensor t" if tin: "t \<in> set sds" for t
    proof -
      obtain tv where "tv \<in> set tvs" "sparsify_one sparsify m (rescale task) tv = Inr t"
        using map_err_set[OF me tin] by blast
      then show ?thesis using assms(2,3)
        by (auto simp: sparsify_one_def split: sum.splits)
    qed
    then show ?thesis
      using stack_Inr[OF that(2)] map_err_length[OF that(1)] by (auto simp: wf_tensor_def)
  qed
  show ?thesis
    using assms(1) raw sp
    by (auto simp: stack_deltas_def split: option.splits if_splits sum.splits)
qed

lemma weight_rows_lengths:
  assumes "length ws = length ds" "\<forall>r\<in>set ds. length r = n"
  shows "length (weight_rows ds ws) = length ds \<and> (\<forall>r\<in>set (weight_rows ds ws). length r = n)"
  using assms by (auto simp: weight_rows_exact dest!: set_zip_leftD)

lemma mix_deltas_int8:
  assumes "\<forall>r\<in>set wds. length r = n" "length wds < 2 ^ 63"
  shows "mix_deltas (task\<lparr>int8_mask := b\<rparr>) n wds ws = mix_deltas task n wds ws"
proof -
  have "get_mask n wds mth (Some (if c then Int8 else Float)) = get_mask n wds mth (Some Float)"
    for mth c
    using get_mask_int8_float[OF assms] by simp
  then show ?thesis
    by (simp add: mix_deltas_exact masked_path_exact unmasked_path_exact split: option.splits sum.splits)
qed

lemma merge_tvs_int8:
  assumes "\<forall>tv\<in>set tvs. wf_tensor (delta tv)"
    "\<forall>d x m r g e. wf_tensor d \<longrightarrow> wf_tensor (sparsify d x m r g e)"
    "length tvs < 2 ^ 63"
  shows "merge_tvs (task\<lparr>int8_mask := b\<rparr>) sparsify gtm tvs base = merge_tvs task sparsify gtm tvs base"
proof -
  have sd: "stack_deltas (task\<lparr>int8_mask := b\<rparr>) sparsify tvs = stack_deltas task sparsify tvs"
    by (simp add: stack_deltas_def split: option.splits)
  have ls: "lambda_scale (task\<lparr>int8_mask := b\<rparr>) tvs md = lambda_scale task tvs md" for md
    by (simp add: lambda_scale_exact)
  have tm: "tall_mask_filter (task\<lparr>int8_mask := b\<rparr>) gtm tvs md = tall_mask_filter task gtm tvs md" for md
    by (simp add: tall_mask_filter_exact)
  have mx: "mix_deltas (task\<lparr>int8_mask := b\<rparr>) (numel s) (weight_rows rows ws) ws
      = mix_deltas task (numel s) (weight_rows rows ws) ws"
    if "stack_deltas task sparsify tvs = Inr (s, rows)"
       "map_err (\<lambda>tv. lookup (params tv) ''weight'') tvs = Inr ws" for s rows ws
  proof -
    have r: "length rows = length tvs" "\<forall>r\<in>set rows. length r = numel s"
      using stack_deltas_rows[OF that(1) assms(1,2)] by simp_all
    have w: "length ws = length rows" using map_err_length[OF that(2)] r(1) by simp
    have "\<forall>r\<in>set (weight_rows rows ws). length r = numel s" "length (weight_rows rows ws) < 2 ^ 63"
      using weight_rows_lengths[OF w r(2)] r(1) assms(3) by simp_all
    then show ?thesis by (rule mix_deltas_int8)
  qed
  show ?thesis
    unfolding merge_tvs_exact sd
    by (auto simp: ls tm mx Let_def split: sum.splits prod.splits)
qed

lemma sum_list_const: "(\<forall>x\<in>set xs. f x = (c::nat)) \<Longrightarrow> sum_list (map f xs) = length xs * c"
  by (induction xs) simp_all

lemma slice_piece_length:
  assumes "length xs = a * (b * inner)" "i < a" "cb \<le> b"
  shows "length (take (cb * inner) (drop (i * (b * inner)) xs)) = cb * inner"
proof -
  have "Suc i \<le> a" using assms(2) by simp
  then have "Suc i * (b * inner) \<le> a * (b * inner)" by (rule mult_le_mono1)
  then have "i * (b * inner) + b * inner \<le> length xs" using assms(1) by simp
  then have "b * inner \<le> length xs - i * (b * inner)" by linarith
  moreover have "cb * inner \<le> b * inner" using assms(3) by (rule mult_le_mono1)
  ultimately have "cb * inner \<le> length xs - i * (b * inner)" by linarith
  then show ?thesis by (simp only: length_take length_drop min_absorb2)
qed

lemma slice2_wf:
  assumes "slice2 r c x = Inr x'" "wf_tensor x"
  shows "wf_tensor x'"
proof -
  obtain a b rest where s: "shape x = a # b # rest"
    using assms(1) by (auto simp: slice2_def split: list.splits)
  let ?inner = "numel rest"
  have len: "length (data x) = a * (b * ?inner)"
    using assms(2) s by (simp add: wf_tensor_def numel_def)
  have "\<forall>i\<in>set [0..<min r a].
      length (take (min c b * ?inner) (drop (i * (b * ?inner)) (data x))) = min c b * ?inner"
    using slice_piece_length[OF len] by simp
  then have "sum_list (map (\<lambda>i. length (take (min c b * ?inner) (drop (i * (b * ?inner)) (data x))))
      [0..<min r a]) = length [0..<min r a] * (min c b * ?inner)"
    by (rule sum_list_const)
  then show ?thesis
    using assms(1) s
    by (auto simp: slice2_def wf_tensor_def numel_def Let_def length_concat comp_def)
qed

lemma length_expand: "length (expand s x) = numel s"
  by (simp add: expand_def)

lemma tensor_op_wf:
  assumes "tensor_op f x y = Inr z" "wf_tensor x" "wf_tensor y"
  shows "wf_tensor z"
  using assms
  by (auto simp: tensor_op_def wf_tensor_def length_expand split: if_splits sum.splits)

lemma fit_shape_wf:
  assumes "fit_shape wi m base x = Inr (Some x', ws)" "wf_tensor x"
  shows "wf_tensor x'"
  using assms
  by (auto simp: fit_shape_def split: if_splits sum.splits dest: slice2_wf)

lemma gtv_loop_wf:
  assumes "gtv_loop wi bm t tp base keys = Inr (tvs, ws)" "wf_tensor base"
    "\<forall>k x. t k = Some x \<longrightarrow> wf_tensor x"
  shows "(\<forall>tv\<in>set tvs. wf_tensor (delta tv)) \<and> length tvs \<le> length keys"
  using assms(1)
proof (induction keys arbitrary: tvs ws)
  case Nil
  then show ?case by simp
next
  case (Cons m keys)
  show ?case
  proof (cases "m = bm")
    case True
    then show ?thesis using Cons by auto
  next
    case False
    then obtain x where x: "t m = Some x"
      using Cons.prems by (auto split: option.splits)
    have wx: "wf_tensor x" using assms(3) x by blast
    obtain xo w1 where f: "fit_shape wi m base x = Inr (xo, w1)"
      using Cons.prems False x by (auto split: sum.splits)
    show ?thesis
    proof (cases xo)
      case None
      then show ?thesis
        using Cons.prems False x f Cons.IH by (auto split: sum.splits)
    next
      case (Some x')
      have wx': "wf_tensor x'" using f Some wx by (auto dest: fit_shape_wf)
      obtain d where d: "tensor_op (-) x' base = Inr d"
        using Cons.prems False x f Some by (auto split: sum.splits)
      have wd: "wf_tensor d" using d wx' assms(2) by (rule tensor_op_wf)
      show ?thesis
        using Cons.prems False x f Some d wd Cons.IH
        by (auto split: sum.splits option.splits)
    qed
  qed
qed

lemma get_task_vectors_wf:
  assumes "get_task_vectors wi bm tensors tp = Inr (tvs, base, ws)"
    "\<forall>(k, x)\<in>set tensors. wf_tensor x"
  shows "(\<forall>tv\<in>set tvs. wf_tensor (delta tv)) \<and> length tvs \<le> length tensors \<and> wf_tensor base"
proof -
  have a: "\<forall>k x. map_of tensors k = Some x \<longrightarrow> wf_tensor x"
    using assms(2) by (auto dest: map_of_SomeD)
  have b: "map_of tensors bm = Some base"
    using assms(1) by (auto simp: get_task_vectors_exact split: option.splits sum.splits)
  then have wb: "wf_tensor base" using a by blast
  have "gtv_loop wi bm (map_of tensors) tp base (map fst tensors) = Inr (tvs, ws)"
    using assms(1) b by (auto simp: get_task_vectors_exact split: option.splits sum.splits)
  from gtv_loop_wf[OF this wb a] wb show ?thesis by simp
qed

section \<open>Facts about the tall-mask filter\<close>














section \<open>Facts about shape mismatches\<close>

lemma nth_concat_uniform:
  assumes "\<forall>k<n. length (f k) = c" "i < n" "j < c"
  shows "concat (map f [0..<n]) ! (i * c + j) = f i ! j"
  using assms
proof (induction n)
  case 0
  then show ?case by simp
next
  case (Suc n)
  have "sum_list (map (\<lambda>k. length (f k)) [0..<n]) = length [0..<n] * c"
    using Suc.prems(1) by (intro sum_list_const) simp
  then have len: "length (concat (map f [0..<n])) = n * c"
    by (simp add: length_concat comp_def)
  show ?case
  proof (cases "i < n")
    case True
    then have "Suc i \<le> n" by simp
    then have "Suc i * c \<le> n * c" by (rule mult_le_mono1)
    then have "i * c + j < n * c" using Suc.prems(3) by simp
    then show ?thesis using Suc True len by (simp add: nth_append)
  next
    case False
    then have "i = n" using Suc.prems(2) by simp
    then show ?thesis using len by (simp add: nth_append)
  qed
qed

lemma block_index_bound:
  assumes "j < (c::nat)" "l < inner"
  shows "j * inner + l < c * inner"
proof -
  have "Suc j \<le> c" using assms(1) by simp
  then have "Suc j * inner \<le> c * inner" by (rule mult_le_mono1)
  then show ?thesis using assms(2) by simp
qed

lemma slice2_block:
  assumes "shape x = a # b # rest" "wf_tensor x" "r \<le> a" "c \<le> b"
  shows "\<exists>x'. slice2 r c x = Inr x' \<and> shape x' = r # c # rest
    \<and> (\<forall>i<r. \<forall>j<c. \<forall>l<numel rest.
          data x' ! ((i * c + j) * numel rest + l) = data x ! ((i * b + j) * numel rest + l))"
proof -
  let ?n = "numel rest"
  let ?f = "\<lambda>i. take (c * ?n) (drop (i * (b * ?n)) (data x))"
  have len: "length (data x) = a * (b * ?n)"
    using assms(1,2) by (simp add: wf_tensor_def numel_def)
  have pl: "\<forall>k<r. length (?f k) = c * ?n"
    using slice_piece_length[OF len, of _ c] assms(3,4) by auto
  have s: "slice2 r c x = Inr (Tensor (r # c # rest) (concat (map ?f [0..<r])))"
    using assms by (simp add: slice2_def min_absorb1 Let_def)
  have "concat (map ?f [0..<r]) ! ((i * c + j) * ?n + l) = data x ! ((i * b + j) * ?n + l)"
    if "i < r" "j < c" "l < ?n" for i j l
  proof -
    have jl: "j * ?n + l < c * ?n" using that(2,3) by (rule block_index_bound)
    have "concat (map ?f [0..<r]) ! (i * (c * ?n) + (j * ?n + l)) = ?f i ! (j * ?n + l)"
      using pl that(1) jl by (rule nth_concat_uniform)
    also have "\<dots> = data x ! (i * (b * ?n) + (j * ?n + l))"
    proof -
      have "j * ?n + l < b * ?n"
        using that(2,3) assms(4) by (intro block_index_bound) simp_all
      moreover have "Suc i * (b * ?n) \<le> a * (b * ?n)"
        using that(1) assms(3) by (intro mult_le_mono1) simp
      ultimately have "i * (b * ?n) + (j * ?n + l) < length (data x)" using len by simp
      then show ?thesis using jl by simp
    qed
    finally show ?thesis by (simp add: algebra_simps)
  qed
  then show ?thesis using s by simp
qed

lemma embed_step:
  assumes "m \<noteq> bm" "t m = Some x" "shape x \<noteq> shape base" "is_embed wi"
    "shape base = r # c # rest" "shape x = a # b # rest" "r \<le> a" "c \<le> b" "wf_tensor x"
    "tp m = Some ps" "gtv_loop wi bm t tp base keys = Inr (res, ws')"
  shows "\<exists>x'. slice2 r c x = Inr x' \<and> shape x' = shape base
    \<and> (\<forall>i<r. \<forall>j<c. \<forall>l<numel rest.
          data x' ! ((i * c + j) * numel rest + l) = data x ! ((i * b + j) * numel rest + l))
    \<and> gtv_loop wi bm t tp base (m # keys)
        = Inr (\<lparr>model = m, delta = Tensor (shape base) (map2 (-) (data x') (data base)),
                 params = ps\<rparr> # res, UsingSubmatrix m (name wi) # ws')"
proof -
  obtain x' where x': "slice2 r c x = Inr x'" "shape x' = r # c # rest"
    "\<forall>i<r. \<forall>j<c. \<forall>l<numel rest.
          data x' ! ((i * c + j) * numel rest + l) = data x ! ((i * b + j) * numel rest + l)"
    using slice2_block[OF assms(6,9,7,8)] by blast
  have f: "fit_shape wi m base x = Inr (Some x', [UsingSubmatrix m (name wi)])"
    using assms(3,4,5) x'(1) by (simp add: fit_shape_def shape_at_def)
  have o: "tensor_op (-) x' base = Inr (Tensor (shape base) (map2 (-) (data x') (data base)))"
    using x'(2) assms(5) by (simp add: tensor_op_def)
  have "gtv_loop wi bm t tp base (m # keys)
        = Inr (\<lparr>model = m, delta = Tensor (shape base) (map2 (-) (data x') (data base)),
                 params = ps\<rparr> # res, UsingSubmatrix m (name wi) # ws')"
    using assms(1,2,10,11) f o by simp
  then show ?thesis using x' assms(5) by auto
qed

lemma map_of_filter_other:
  "k \<noteq> m \<Longrightarrow> map_of (filter (\<lambda>p. fst p \<noteq> m) ts) k = map_of ts k"
  by (induction ts) auto

lemma map_fst_filter:
  "map fst (filter (\<lambda>p. fst p \<noteq> m) ts) = filter (\<lambda>k. k \<noteq> m) (map fst ts)"
  by (induction ts) auto

lemma fit_shape_skip:
  assumes "\<not> is_embed wi" "shape x \<noteq> shape base"
  shows "fit_shape wi m base x = Inr (None, [SkippingSizeMismatch m (name wi)])"
  using assms by (simp add: fit_shape_def)

lemma gtv_loop_skip:
  assumes "\<not> is_embed wi" "m \<noteq> bm" "t m = Some x" "shape x \<noteq> shape base"
    "\<forall>k. k \<noteq> m \<longrightarrow> t' k = t k"
  shows "map_sum id fst (gtv_loop wi bm t tp base keys)
       = map_sum id fst (gtv_loop wi bm t' tp base (filter (\<lambda>k. k \<noteq> m) keys))"
proof (induction keys)
  case Nil
  then show ?case by simp
next
  case (Cons k keys)
  show ?case
  proof (cases "k = m")
    case True
    then show ?thesis
      using Cons assms(2,3) fit_shape_skip[OF assms(1,4)]
      by (auto split: sum.splits)
  next
    case False
    then have "t' k = t k" using assms(5) by simp
    then show ?thesis
      using Cons False
      by (auto split: sum.splits option.splits prod.splits)
  qed
qed

lemma gtv_loop_skipped:
  assumes "\<not> is_embed wi" "m \<noteq> bm" "t m = Some x" "shape x \<noteq> shape base"
    "gtv_loop wi bm t tp base keys = Inr (tvs, ws)"
  shows "m \<notin> model ` set tvs \<and> (m \<in> set keys \<longrightarrow> SkippingSizeMismatch m (name wi) \<in> set ws)"
  using assms(5)
proof (induction keys arbitrary: tvs ws)
  case Nil
  then show ?case by simp
next
  case (Cons k keys)
  show ?case
  proof (cases "k = m")
    case True
    then show ?thesis
      using Cons assms(2,3) fit_shape_skip[OF assms(1,4)]
      by (auto split: sum.splits)
  next
    case False
    then show ?thesis
      using Cons
      by (auto split: sum.splits option.splits prod.splits if_splits)
  qed
qed

lemma execute_via_tvs:
  "execute task sp gtm tensors =
     (case map_of tensors (base_model task) of
        None \<Rightarrow> Inl KeyError
      | Some base \<Rightarrow>
          (case map_sum id fst (gtv_loop (weight_info task) (base_model task) (map_of tensors)
                  (tensor_parameters task) base (map fst tensors)) of
             Inl e \<Rightarrow> Inl e
           | Inr tvs \<Rightarrow> merge_tvs task sp gtm tvs base))"
  by (simp add: execute_exact get_task_vectors_exact split: option.splits sum.splits prod.splits)

lemma execute_skip:
  assumes "\<not> is_embed (weight_info task)" "m \<noteq> base_model task" "map_of tensors m = Some x"
    "map_of tensors (base_model task) = Some base" "shape x \<noteq> shape base"
  shows "execute task sp gtm tensors = execute task sp gtm (filter (\<lambda>p. fst p \<noteq> m) tensors)"
proof -
  let ?ts = "filter (\<lambda>p. fst p \<noteq> m) tensors"
  have b: "map_of ?ts (base_model task) = Some base"
    using assms(2,4) by (simp add: map_of_filter_other)
  have o: "\<forall>k. k \<noteq> m \<longrightarrow> map_of ?ts k = map_of tensors k"
    by (simp add: map_of_filter_other)
  have "map_sum id fst (gtv_loop (weight_info task) (base_model task) (map_of tensors)
            (tensor_parameters task) base (map fst tensors))
      = map_sum id fst (gtv_loop (weight_info task) (base_model task) (map_of ?ts)
            (tensor_parameters task) base (map fst ?ts))"
    unfolding map_fst_filter using assms(1,2,3,5) o by (rule gtv_loop_skip)
  then show ?thesis
    unfolding execute_via_tvs using assms(4) b by simp
qed

section \<open>Facts about an unknown method and a zero delta\<close>

lemma mix_deltas_unknown:
  assumes "method \<noteq> ''sum''" "method \<noteq> ''count''" "method \<noteq> []"
    "consensus_method task = Some method"
  shows "mix_deltas task n wds ws = Inl RuntimeError"
  using assms
  by (simp add: mix_deltas_exact masked_path_exact get_mask_exact split: option.splits dtype.splits)

lemma merge_tvs_unknown:
  assumes "method \<noteq> ''sum''" "method \<noteq> ''count''" "method \<noteq> []"
    "consensus_method task = Some method" "tvs \<noteq> []"
  shows "\<exists>e. merge_tvs task sparsify gtm tvs base = Inl e"
  using assms(5) mix_deltas_unknown[OF assms(1-4)]
  by (auto simp: merge_tvs_exact Let_def split: sum.splits prod.splits)

lemma merge_tvs_unknown_runtime:
  assumes "method \<noteq> ''sum''" "method \<noteq> ''count''" "method \<noteq> []"
    "consensus_method task = Some method" "tvs \<noteq> []"
    "stack_deltas task sparsify tvs = Inr (s, deltas)"
    "map_err (\<lambda>tv. lookup (params tv) ''weight'') tvs = Inr weights"
  shows "merge_tvs task sparsify gtm tvs base = Inl RuntimeError"
  using assms(5,6,7) mix_deltas_unknown[OF assms(1-4)]
  by (simp add: merge_tvs_exact Let_def)

lemma sum_list_rows_index:
  "sum_list (map f rows) = sum_list (map (\<lambda>k. f (rows ! k)) [0..<length rows])"
proof -
  have "map f rows = map (\<lambda>k. f (rows ! k)) [0..<length rows]"
    by (rule nth_equalityI) simp_all
  then show ?thesis by simp
qed

lemma sum_list_upt_cong:
  assumes "\<And>k. k < m \<Longrightarrow> f k = g k"
  shows "sum_list (map f [0..<m]) = sum_list (map g [0..<m])"
proof -
  have "map f [0..<m] = map g [0..<m]"
    using assms by (intro nth_equalityI) simp_all
  then show ?thesis by (rule arg_cong)
qed

lemma sum_list_without_zero:
  assumes "i < m" "f i = (0::real)"
  shows "sum_list (map f [0..<m]) = sum_list (map f (remove1 i [0..<m]))"
  using assms sum_list_map_remove1[of i "[0..<m]" f] by simp

lemma mul_mask_nth:
  assumes "k < length wds" "length msk = length wds" "j < length (wds ! k)" "j < length (msk ! k)"
  shows "mul_mask wds msk ! k ! j = wds ! k ! j * of_bool (msk ! k ! j)"
  using assms by (simp add: mul_mask_exact)

lemma weights_mul_mask_nth:
  assumes "k < length ws" "length msk = length ws" "j < length (msk ! k)"
  shows "weights_mul_mask ws msk ! k ! j = ws ! k * of_bool (msk ! k ! j)"
  using assms by (simp add: weights_mul_mask_exact)

section \<open>The claims\<close>



text \<open>
  C8. Building the consensus mask with a method that is neither \<^verbatim>\<open>sum\<close> nor
  \<^verbatim>\<open>count\<close> raises an error, for either mask dtype. A merge configured with such a
  method (a \<^verbatim>\<open>ConsensusMethod\<close> is a non-empty string) never returns a tensor once
  there is a descriptor to merge: the mixing stage raises, and when the stack and the
  weights were built the call ends in exactly that error. No rule is used in its place.
\<close>

theorem unknown_method_aborts_call:
  assumes "method \<noteq> ''sum''" "method \<noteq> ''count''"
  shows "get_mask n ds method dt = Inl RuntimeError
    \<and> masked_path task method n ds ws = Inl RuntimeError
    \<and> (method \<noteq> [] \<and> consensus_method task = Some method \<longrightarrow>
          mix_deltas task n ds ws = Inl RuntimeError
          \<and> (\<forall>tvs base lg. get_task_vectors (weight_info task) (base_model task) tensors
                  (tensor_parameters task) = Inr (tvs, base, lg) \<and> tvs \<noteq> [] \<longrightarrow>
                (\<exists>e. execute task sparsify gtm tensors = Inl e)
                \<and> (\<forall>s deltas weights. stack_deltas task sparsify tvs = Inr (s, deltas)
                      \<and> map_err (\<lambda>tv. lookup (params tv) ''weight'') tvs = Inr weights \<longrightarrow>
                    execute task sparsify gtm tensors = Inl RuntimeError)))"
proof -
  have a: "get_mask n ds method dt = Inl RuntimeError
    \<and> masked_path task method n ds ws = Inl RuntimeError"
    using assms
    by (simp add: get_mask_exact masked_path_exact split: option.splits dtype.splits)
  have b: "mix_deltas task n ds ws = Inl RuntimeError"
    if "method \<noteq> []" "consensus_method task = Some method"
    using assms that by (rule mix_deltas_unknown)
  have c: "\<exists>e. execute task sparsify gtm tensors = Inl e"
    if "method \<noteq> []" "consensus_method task = Some method"
      "get_task_vectors (weight_info task) (base_model task) tensors
                  (tensor_parameters task) = Inr (tvs, base, lg)" "tvs \<noteq> []" for tvs base lg
    using merge_tvs_unknown[OF assms that(1,2,4)] that(3) by (simp add: execute_exact)
  have d: "execute task sparsify gtm tensors = Inl RuntimeError"
    if "method \<noteq> []" "consensus_method task = Some method"
      "get_task_vectors (weight_info task) (base_model task) tensors
                  (tensor_parameters task) = Inr (tvs, base, lg)" "tvs \<noteq> []"
      "stack_deltas task sparsify tvs = Inr (s, deltas)"
      "map_err (\<lambda>tv. lookup (params tv) ''weight'') tvs = Inr weights"
    for tvs base lg s deltas weights
    using merge_tvs_unknown_runtime[OF assms that(1,2,4,5,6)] that(3) by (simp add: execute_exact)
  show ?thesis using a b c d by blast
qed

theorem unknown_method_aborts_call_witness:
  "get_mask 2 [[1, - 1]] ''max'' None = Inl RuntimeError
   \<and> execute \<lparr>consensus_method = Some ''max'', sparsification_method = None,
        base_model = ''base'', weight_info = \<lparr>name = ''w'', is_embed = False\<rparr>,
        tensor_parameters = [''a'' \<mapsto> [''weight'' \<mapsto> 1]], int8_mask = False,
        normalize = True, rescale = False\<rparr>
       (\<lambda>d _ _ _ _ _. d) (\<lambda>d _ _. Tensor (shape d) (map (\<lambda>_. True) (data d)))
       [(''base'', Tensor [2] [1, 2]), (''a'', Tensor [2] [5, 7])] = Inl RuntimeError"
proof -
  let ?task = "\<lparr>consensus_method = Some ''max'', sparsification_method = None,
        base_model = ''base'', weight_info = \<lparr>name = ''w'', is_embed = False\<rparr>,
        tensor_parameters = [''a'' \<mapsto> [''weight'' \<mapsto> 1]], int8_mask = False,
        normalize = True, rescale = False\<rparr>"
  let ?ts = "[(''base'', Tensor [2] [1, 2]), (''a'', Tensor [2] [5, 7 :: real])]"
  let ?tvs = "[\<lparr>model = ''a'', delta = Tensor [2] [4, 5 :: real], params = [''weight'' \<mapsto> 1]\<rparr>]"
  have g: "get_task_vectors (weight_info ?task) (base_model ?task) ?ts (tensor_parameters ?task)
      = Inr (?tvs, Tensor [2] [1, 2], [])"
    by (simp add: get_task_vectors_exact fit_shape_def tensor_op_def)
  have s: "stack_deltas ?task (\<lambda>d _ _ _ _ _. d) ?tvs = Inr ([2], [[4, 5]])"
    by (simp add: stack_deltas_def stack_def)
  have w: "map_err (\<lambda>tv. lookup (params tv) ''weight'') ?tvs = Inr [1]"
    by (simp add: lookup_def)
  show ?thesis
    using unknown_method_aborts_call [of "''max''" 2 "[[1, - 1]]" None ?task "[1]" ?ts "(\<lambda>d _ _ _ _ _. d)"
        "(\<lambda>d _ _. Tensor (shape d) (map (\<lambda>_. True) (data d)))"] g s w
    by simp
qed

text \<open>
  C9. When the extraction of task vectors yields no descriptor, the merge returns the
  base tensor unchanged, whatever the configuration and the sparsification and tall-mask
  primitives are: none of the later stages takes part in the result.
\<close>

theorem execute_no_descriptors:
  assumes "get_task_vectors (weight_info task) (base_model task) tensors
             (tensor_parameters task) = Inr ([], base, ws)"
  shows "execute task sparsify get_tall_mask tensors = Inr base"
  using assms by (simp add: execute_exact merge_tvs_exact)

theorem execute_no_descriptors_witness:
  "get_task_vectors \<lparr>name = ''w'', is_embed = False\<rparr> ''base''
     [(''base'', Tensor [2] [1, 2])] Map.empty = Inr ([], Tensor [2] [1, 2], [])
   \<and> execute \<lparr>consensus_method = Some ''max'', sparsification_method = Some Consensus_ties,
        base_model = ''base'', weight_info = \<lparr>name = ''w'', is_embed = False\<rparr>,
        tensor_parameters = Map.empty, int8_mask = True, normalize = True,
        rescale = True\<rparr> (\<lambda>d _ _ _ _ _. d) (\<lambda>d _ _. Tensor (shape d) [])
        [(''base'', Tensor [2] [1, 2])] = Inr (Tensor [2] [1, 2])"
proof -
  have h: "get_task_vectors \<lparr>name = ''w'', is_embed = False\<rparr> ''base''
     [(''base'', Tensor [2] [1, 2])] Map.empty = Inr ([], Tensor [2] [1, 2], [])"
    by (simp add: get_task_vectors_exact)
  show ?thesis
    using h execute_no_descriptors [of "\<lparr>consensus_method = Some ''max'',
        sparsification_method = Some Consensus_ties,
        base_model = ''base'', weight_info = \<lparr>name = ''w'', is_embed = False\<rparr>,
        tensor_parameters = Map.empty, int8_mask = True, normalize = True,
        rescale = True\<rparr>" "[(''base'', Tensor [2] [1, 2])]" "Tensor [2] [1, 2]" "[]"]
    by simp
qed

text \<open>
  C10. At an element where a model's weighted delta is exactly zero, the consensus mask
  excludes that model under both rules and both mask dtypes. Its products with the mask
  are 0 there, and the mixed delta and the divisor of the masked mix at that element are
  the sums over the other models alone (the divisor with its guard): the model adds
  nothing to either.
\<close>

theorem zero_delta_excluded:
  assumes "get_mask n wds method dt = Inr msk" "i < length wds" "j < n"
    "\<forall>r\<in>set wds. length r = n" "wds ! i ! j = 0" "length ws = length wds"
  shows "\<not> msk ! i ! j \<and> mul_mask wds msk ! i ! j = 0 \<and> weights_mul_mask ws msk ! i ! j = 0
    \<and> fst (mix_masked n wds ws msk) ! j
        = sum_list (map (\<lambda>k. wds ! k ! j * of_bool (msk ! k ! j)) (remove1 i [0..<length wds]))
    \<and> snd (mix_masked n wds ws msk) ! j
        = (let d = sum_list (map (\<lambda>k. ws ! k * of_bool (msk ! k ! j)) (remove1 i [0..<length wds]))
           in if d = 0 then 1 else d)"
proof -
  have li: "length (wds ! i) = n" using assms(2,4) by simp
  then have "j < length (wds ! i)" using assms(3) by simp
  with assms(1,2,3) have ex: "\<not> msk ! i ! j"
    using assms(5) by (rule get_mask_zero_excluded)
  have l: "length msk = length wds" using assms(1) by (rule get_mask_length)
  have rl: "length (msk ! k) = n" if "k < length wds" for k
    using get_mask_row_length[OF assms(1) that] assms(4) that by simp
  have wl: "length (wds ! k) = n" if "k < length wds" for k
    using assms(4) that by simp
  have lm: "length (mul_mask wds msk) = length wds" "length (weights_mul_mask ws msk) = length wds"
    using l assms(6) by (simp_all add: mul_mask_exact weights_mul_mask_exact)
  have m: "mul_mask wds msk ! k ! j = wds ! k ! j * of_bool (msk ! k ! j)" if "k < length wds" for k
    using that l wl[OF that] rl[OF that] assms(3) by (intro mul_mask_nth) simp_all
  have w: "weights_mul_mask ws msk ! k ! j = ws ! k * of_bool (msk ! k ! j)" if "k < length wds" for k
    using that l rl[OF that] assms(3,6) by (intro weights_mul_mask_nth) simp_all
  have "fst (mix_masked n wds ws msk) ! j = sum_list (map (\<lambda>r. r ! j) (mul_mask wds msk))"
    using assms(3) by (simp add: mix_masked_exact Let_def sum_dim0_nth)
  also have "\<dots> = sum_list (map (\<lambda>k. mul_mask wds msk ! k ! j) [0..<length wds])"
    using sum_list_rows_index[of "\<lambda>r. r ! j" "mul_mask wds msk"] lm(1) by simp
  also have "\<dots> = sum_list (map (\<lambda>k. wds ! k ! j * of_bool (msk ! k ! j)) [0..<length wds])"
    using m by (rule sum_list_upt_cong)
  also have "\<dots> = sum_list (map (\<lambda>k. wds ! k ! j * of_bool (msk ! k ! j)) (remove1 i [0..<length wds]))"
    using assms(2,5) by (intro sum_list_without_zero) simp_all
  finally have mixed: "fst (mix_masked n wds ws msk) ! j
        = sum_list (map (\<lambda>k. wds ! k ! j * of_bool (msk ! k ! j)) (remove1 i [0..<length wds]))" .
  have "sum_dim0 n (weights_mul_mask ws msk) ! j
      = sum_list (map (\<lambda>r. r ! j) (weights_mul_mask ws msk))"
    using assms(3) by (simp add: sum_dim0_nth)
  also have "\<dots> = sum_list (map (\<lambda>k. weights_mul_mask ws msk ! k ! j) [0..<length wds])"
    using sum_list_rows_index[of "\<lambda>r. r ! j" "weights_mul_mask ws msk"] lm(2) by simp
  also have "\<dots> = sum_list (map (\<lambda>k. ws ! k * of_bool (msk ! k ! j)) [0..<length wds])"
    using w by (rule sum_list_upt_cong)
  also have "\<dots> = sum_list (map (\<lambda>k. ws ! k * of_bool (msk ! k ! j)) (remove1 i [0..<length wds]))"
    using assms(2) ex by (intro sum_list_without_zero) simp_all
  finally have dv: "sum_dim0 n (weights_mul_mask ws msk) ! j
      = sum_list (map (\<lambda>k. ws ! k * of_bool (msk ! k ! j)) (remove1 i [0..<length wds]))" .
  have "snd (mix_masked n wds ws msk) ! j
      = (if sum_dim0 n (weights_mul_mask ws msk) ! j = 0 then 1
         else sum_dim0 n (weights_mul_mask ws msk) ! j)"
    using assms(3) by (rule masked_divisor)
  then have divisor: "snd (mix_masked n wds ws msk) ! j
        = (let d = sum_list (map (\<lambda>k. ws ! k * of_bool (msk ! k ! j)) (remove1 i [0..<length wds]))
           in if d = 0 then 1 else d)"
    by (simp add: dv Let_def)
  have z: "mul_mask wds msk ! i ! j = 0" "weights_mul_mask ws msk ! i ! j = 0"
    using m[OF assms(2)] w[OF assms(2)] ex assms(5) by simp_all
  show ?thesis using ex z mixed divisor by simp
qed

theorem zero_delta_excluded_witness:
  "get_mask 2 [[0, 1], [2, - 1]] ''sum'' None = Inr [[False, True], [True, False]]
  \<and> \<not> [[False, True], [True, False]] ! 0 ! 0
  \<and> mul_mask [[0, 1], [2, - 1]] [[False, True], [True, False]] ! 0 ! 0 = 0
  \<and> weights_mul_mask [3, 5] [[False, True], [True, False]] ! 0 ! 0 = 0
  \<and> fst (mix_masked 2 [[0, 1], [2, - 1]] [3, 5] [[False, True], [True, False]]) ! 0 = 2
  \<and> snd (mix_masked 2 [[0, 1], [2, - 1]] [3, 5] [[False, True], [True, False]]) ! 0 = 5"
proof -
  have h: "get_mask 2 [[0, 1], [2, - 1]] ''sum'' None = Inr [[False, True], [True, False]]"
    by code_simp
  have r: "remove1 0 [0..<length [[0, 1], [2, - 1 :: real]]] = [1]"
    by (simp add: upt_rec)
  show ?thesis
    using h zero_delta_excluded [OF h, of 0 0 "[3, 5]"] by (simp add: r)
qed




text \<open>
  C1, as the code has it. With \<^verbatim>\<open>consensus_ta\<close> no sparsification precedes the
  aggregation: the stack is built from the raw deltas and the merge does not depend on
  the \<^verbatim>\<open>sparsify\<close> primitive. With \<^verbatim>\<open>consensus_ties\<close> every descriptor's delta goes
  through \<^verbatim>\<open>sparsify\<close> (called with that method) before the stack is built.
\<close>

theorem consensus_ta_raw_deltas:
  "(sparsification_method task = Some Consensus_ta \<longrightarrow>
      stack_deltas task sparsify tvs = stack (map delta tvs)
      \<and> merge_tvs task sparsify gtm tvs base = merge_tvs task sparsify' gtm tvs base)
   \<and> (sparsification_method task = Some Consensus_ties \<longrightarrow>
      stack_deltas task sparsify tvs =
        (case map_err (sparsify_one sparsify Consensus_ties (rescale task)) tvs of
           Inl e \<Rightarrow> Inl e | Inr sparsified \<Rightarrow> stack sparsified))"
  by (simp add: stack_deltas_def merge_tvs_exact)

theorem consensus_ta_raw_deltas_witness:
  "stack_deltas \<lparr>consensus_method = None, sparsification_method = Some Consensus_ta,
        base_model = ''base'', weight_info = \<lparr>name = ''w'', is_embed = False\<rparr>,
        tensor_parameters = Map.empty, int8_mask = False, normalize = True,
        rescale = False\<rparr> (\<lambda>d _ _ _ _ _. Tensor (shape d) (map (\<lambda>_. 0) (data d)))
     [\<lparr>model = ''m'', delta = Tensor [2] [1, 2 :: real],
        params = [''weight'' \<mapsto> 1, ''density'' \<mapsto> 1]\<rparr>]
   = stack (map delta [\<lparr>model = ''m'', delta = Tensor [2] [1, 2 :: real],
        params = [''weight'' \<mapsto> 1, ''density'' \<mapsto> 1]\<rparr>])"
  using consensus_ta_raw_deltas [of "\<lparr>consensus_method = None, sparsification_method = Some Consensus_ta,
        base_model = ''base'', weight_info = \<lparr>name = ''w'', is_embed = False\<rparr>,
        tensor_parameters = Map.empty, int8_mask = False, normalize = True,
        rescale = False\<rparr>" "(\<lambda>d _ _ _ _ _. Tensor (shape d) (map (\<lambda>_. 0) (data d)))"
      "[\<lparr>model = ''m'', delta = Tensor [2] [1, 2 :: real],
        params = [''weight'' \<mapsto> 1, ''density'' \<mapsto> 1]\<rparr>]"]
  by simp

text \<open>
  C1 as stated fails for \<^verbatim>\<open>consensus_ties\<close>: a primitive that zeroes its input changes
  the stack that is aggregated.
\<close>

theorem consensus_ties_sparsified_counterexample:
  "stack_deltas \<lparr>consensus_method = None, sparsification_method = Some Consensus_ties,
        base_model = ''base'', weight_info = \<lparr>name = ''w'', is_embed = False\<rparr>,
        tensor_parameters = Map.empty, int8_mask = False, normalize = True,
        rescale = False\<rparr> (\<lambda>d _ _ _ _ _. Tensor (shape d) (map (\<lambda>_. 0) (data d)))
     [\<lparr>model = ''m'', delta = Tensor [2] [1, 2 :: real], params = [''weight'' \<mapsto> 1, ''density'' \<mapsto> 1]\<rparr>]
     = Inr ([2], [[0, 0]])
   \<and> stack (map delta 
     [\<lparr>model = ''m'', delta = Tensor [2] [1, 2 :: real], params = [''weight'' \<mapsto> 1, ''density'' \<mapsto> 1]\<rparr>])
     = Inr ([2], [[1, 2]])"
  by (simp add: stack_deltas_def stack_def sparsify_one_def lookup_def)



text \<open>
  C7. For well-formed input tensors (fewer than \<open>2 ^ 63\<close> of them) and a sparsification
  primitive that returns well-formed tensors, the merge with \<^verbatim>\<open>int8_mask\<close> set is the
  merge without it: the same tensor, or the same error.
\<close>

theorem int8_mask_irrelevant:
  assumes "\<forall>(k, x)\<in>set tensors. wf_tensor x"
    "\<forall>d x m r g e. wf_tensor d \<longrightarrow> wf_tensor (sparsify d x m r g e)"
    "length tensors < 2 ^ 63"
  shows "execute (task\<lparr>int8_mask := True\<rparr>) sparsify gtm tensors
       = execute (task\<lparr>int8_mask := False\<rparr>) sparsify gtm tensors"
proof -
  have "merge_tvs (task\<lparr>int8_mask := b\<rparr>) sparsify gtm tvs base = merge_tvs task sparsify gtm tvs base"
    if "get_task_vectors (weight_info task) (base_model task) tensors (tensor_parameters task)
        = Inr (tvs, base, ws)" for tvs base ws b
  proof -
    have "\<forall>tv\<in>set tvs. wf_tensor (delta tv)" "length tvs < 2 ^ 63"
      using get_task_vectors_wf[OF that assms(1)] assms(3) by simp_all
    then show ?thesis using assms(2) by (intro merge_tvs_int8) 
  qed
  then show ?thesis
    by (simp add: execute_exact split: sum.splits prod.splits)
qed

theorem int8_mask_irrelevant_witness:
  "execute (\<lparr>consensus_method = Some ''count'', sparsification_method = None,
        base_model = ''base'', weight_info = \<lparr>name = ''w'', is_embed = False\<rparr>,
        tensor_parameters = [''a'' \<mapsto> [''weight'' \<mapsto> 1], ''b'' \<mapsto> [''weight'' \<mapsto> 1]],
        int8_mask = False, normalize = True, rescale = False\<rparr>\<lparr>int8_mask := True\<rparr>)
      (\<lambda>d _ _ _ _ _. d) (\<lambda>d _ _. Tensor (shape d) (map (\<lambda>_. True) (data d)))
      [(''base'', Tensor [4] [0, 0, 0, 0]), (''a'', Tensor [4] [1, 1, - 1, - 1]),
       (''b'', Tensor [4] [1, - 1, 1, - 1])]
   = execute (\<lparr>consensus_method = Some ''count'', sparsification_method = None,
        base_model = ''base'', weight_info = \<lparr>name = ''w'', is_embed = False\<rparr>,
        tensor_parameters = [''a'' \<mapsto> [''weight'' \<mapsto> 1], ''b'' \<mapsto> [''weight'' \<mapsto> 1]],
        int8_mask = False, normalize = True, rescale = False\<rparr>\<lparr>int8_mask := False\<rparr>)
      (\<lambda>d _ _ _ _ _. d) (\<lambda>d _ _. Tensor (shape d) (map (\<lambda>_. True) (data d)))
      [(''base'', Tensor [4] [0, 0, 0, 0]), (''a'', Tensor [4] [1, 1, - 1, - 1]),
       (''b'', Tensor [4] [1, - 1, 1, - 1])]
   \<and> execute (\<lparr>consensus_method = Some ''count'', sparsification_method = None,
        base_model = ''base'', weight_info = \<lparr>name = ''w'', is_embed = False\<rparr>,
        tensor_parameters = [''a'' \<mapsto> [''weight'' \<mapsto> 1], ''b'' \<mapsto> [''weight'' \<mapsto> 1]],
        int8_mask = False, normalize = True, rescale = False\<rparr>\<lparr>int8_mask := True\<rparr>)
      (\<lambda>d _ _ _ _ _. d) (\<lambda>d _ _. Tensor (shape d) (map (\<lambda>_. True) (data d)))
      [(''base'', Tensor [4] [0, 0, 0, 0]), (''a'', Tensor [4] [1, 1, - 1, - 1]),
       (''b'', Tensor [4] [1, - 1, 1, - 1])] = Inr (Tensor [4] [1, 1, 1, - 1])"
proof -
  have v: "execute (\<lparr>consensus_method = Some ''count'', sparsification_method = None,
        base_model = ''base'', weight_info = \<lparr>name = ''w'', is_embed = False\<rparr>,
        tensor_parameters = [''a'' \<mapsto> [''weight'' \<mapsto> 1], ''b'' \<mapsto> [''weight'' \<mapsto> 1]],
        int8_mask = False, normalize = True, rescale = False\<rparr>\<lparr>int8_mask := True\<rparr>)
      (\<lambda>d _ _ _ _ _. d) (\<lambda>d _ _. Tensor (shape d) (map (\<lambda>_. True) (data d)))
      [(''base'', Tensor [4] [0, 0, 0, 0]), (''a'', Tensor [4] [1, 1, - 1, - 1]),
       (''b'', Tensor [4] [1, - 1, 1, - 1])] = Inr (Tensor [4] [1, 1, 1, - 1])"
    by code_simp
  have "execute (\<lparr>consensus_method = Some ''count'', sparsification_method = None,
        base_model = ''base'', weight_info = \<lparr>name = ''w'', is_embed = False\<rparr>,
        tensor_parameters = [''a'' \<mapsto> [''weight'' \<mapsto> 1], ''b'' \<mapsto> [''weight'' \<mapsto> 1]],
        int8_mask = False, normalize = True, rescale = False\<rparr>\<lparr>int8_mask := True\<rparr>)
      (\<lambda>d _ _ _ _ _. d) (\<lambda>d _ _. Tensor (shape d) (map (\<lambda>_. True) (data d)))
      [(''base'', Tensor [4] [0, 0, 0, 0]), (''a'', Tensor [4] [1, 1, - 1, - 1]),
       (''b'', Tensor [4] [1, - 1, 1, - 1])]
   = execute (\<lparr>consensus_method = Some ''count'', sparsification_method = None,
        base_model = ''base'', weight_info = \<lparr>name = ''w'', is_embed = False\<rparr>,
        tensor_parameters = [''a'' \<mapsto> [''weight'' \<mapsto> 1], ''b'' \<mapsto> [''weight'' \<mapsto> 1]],
        int8_mask = False, normalize = True, rescale = False\<rparr>\<lparr>int8_mask := False\<rparr>)
      (\<lambda>d _ _ _ _ _. d) (\<lambda>d _ _. Tensor (shape d) (map (\<lambda>_. True) (data d)))
      [(''base'', Tensor [4] [0, 0, 0, 0]), (''a'', Tensor [4] [1, 1, - 1, - 1]),
       (''b'', Tensor [4] [1, - 1, 1, - 1])]"
    using int8_mask_irrelevant [of "[(''base'', Tensor [4] [0, 0, 0, 0]), (''a'', Tensor [4] [1, 1, - 1, - 1]),
       (''b'', Tensor [4] [1, - 1, 1, - 1])]" "(\<lambda>d _ _ _ _ _. d)"
       "\<lparr>consensus_method = Some ''count'', sparsification_method = None,
        base_model = ''base'', weight_info = \<lparr>name = ''w'', is_embed = False\<rparr>,
        tensor_parameters = [''a'' \<mapsto> [''weight'' \<mapsto> 1], ''b'' \<mapsto> [''weight'' \<mapsto> 1]],
        int8_mask = False, normalize = True, rescale = False\<rparr>"
       "(\<lambda>d _ _. Tensor (shape d) (map (\<lambda>_. True) (data d)))"]
    by (simp add: wf_tensor_def numel_def)
  then show ?thesis using v by simp
qed



text \<open>
  C5, as the code has it. A non-base model \<open>m\<close> whose tensor's shape differs from the
  base's. For an embedding weight, when both tensors have at least two axes, agree on
  any further axes, and the model's is at least as large as the base's on the first two,
  the loop step appends a descriptor whose delta has the base's shape and is the leading
  sub-block minus the base, and logs a warning. For any other weight the model gives no descriptor, a warning is logged, and
  the merge is the merge of the tensor map without that model.
\<close>

theorem shape_mismatch_policy:
  assumes "m \<noteq> bm" "map_of tensors m = Some x" "shape x \<noteq> shape base"
  shows "(is_embed wi \<and> shape base = r # c # rest \<and> shape x = a # b # rest
        \<and> r \<le> a \<and> c \<le> b
        \<and> wf_tensor x \<and> tp m = Some ps
        \<and> gtv_loop wi bm (map_of tensors) tp base keys = Inr (res, ws') \<longrightarrow>
      (\<exists>x'. slice2 r c x = Inr x' \<and> shape x' = shape base
        \<and> (\<forall>i<r. \<forall>j<c. \<forall>l<numel rest.
              data x' ! ((i * c + j) * numel rest + l) = data x ! ((i * b + j) * numel rest + l))
        \<and> gtv_loop wi bm (map_of tensors) tp base (m # keys)
            = Inr (\<lparr>model = m, delta = Tensor (shape base) (map2 (-) (data x') (data base)),
                     params = ps\<rparr> # res, UsingSubmatrix m (name wi) # ws')))
    \<and> (\<not> is_embed wi \<and> map_of tensors bm = Some base \<longrightarrow>
      (\<forall>tvs ws. get_task_vectors wi bm tensors tp = Inr (tvs, base, ws) \<longrightarrow>
          m \<notin> model ` set tvs \<and> SkippingSizeMismatch m (name wi) \<in> set ws)
      \<and> (\<forall>task sp gtm. weight_info task = wi \<and> base_model task = bm \<longrightarrow>
          execute task sp gtm tensors
            = execute task sp gtm (filter (\<lambda>p. fst p \<noteq> m) tensors)))"
proof -
  have A: "\<exists>x'. slice2 r c x = Inr x' \<and> shape x' = shape base
        \<and> (\<forall>i<r. \<forall>j<c. \<forall>l<numel rest.
              data x' ! ((i * c + j) * numel rest + l) = data x ! ((i * b + j) * numel rest + l))
        \<and> gtv_loop wi bm (map_of tensors) tp base (m # keys)
            = Inr (\<lparr>model = m, delta = Tensor (shape base) (map2 (-) (data x') (data base)),
                     params = ps\<rparr> # res, UsingSubmatrix m (name wi) # ws')"
    if "is_embed wi" "shape base = r # c # rest" "shape x = a # b # rest" "r \<le> a" "c \<le> b"
      "wf_tensor x" "tp m = Some ps"
      "gtv_loop wi bm (map_of tensors) tp base keys = Inr (res, ws')"
    using assms(1,2,3) that by (rule embed_step)
  have mk: "m \<in> set (map fst tensors)"
    using assms(2) by (metis map_of_SomeD fst_conv image_eqI set_map)
  have B1: "m \<notin> model ` set tvs \<and> SkippingSizeMismatch m (name wi) \<in> set ws"
    if ne: "\<not> is_embed wi" and g: "get_task_vectors wi bm tensors tp = Inr (tvs, base, ws)"
    for tvs ws
  proof -
    have "gtv_loop wi bm (map_of tensors) tp base (map fst tensors) = Inr (tvs, ws)"
      using g by (auto simp: get_task_vectors_exact split: option.splits sum.splits)
    from gtv_loop_skipped[OF ne assms(1,2,3) this] mk show ?thesis by simp
  qed
  have B2: "execute task sp gtm tensors = execute task sp gtm (filter (\<lambda>p. fst p \<noteq> m) tensors)"
    if "\<not> is_embed wi" "map_of tensors bm = Some base" "weight_info task = wi" "base_model task = bm"
    for task sp gtm
    using that assms by (intro execute_skip[where x = x and base = base]) simp_all
  show ?thesis using A B1 B2 by blast
qed

theorem shape_mismatch_policy_witness:
  "gtv_loop \<lparr>name = ''w'', is_embed = True\<rparr> ''base''
      (map_of [(''base'', Tensor [1, 2] [1, 2]), (''m'', Tensor [2, 3] [10, 20, 30, 40, 50, 60])])
      [''m'' \<mapsto> [''weight'' \<mapsto> 1]] (Tensor [1, 2] [1, 2]) [''m'']
    = Inr ([\<lparr>model = ''m'', delta = Tensor [1, 2] [9, 18], params = [''weight'' \<mapsto> 1]\<rparr>],
           [UsingSubmatrix ''m'' ''w''])
   \<and> execute \<lparr>consensus_method = None, sparsification_method = None,
        base_model = ''base'', weight_info = \<lparr>name = ''w'', is_embed = False\<rparr>,
        tensor_parameters = [''a'' \<mapsto> [''weight'' \<mapsto> 1]],
        int8_mask = False, normalize = True, rescale = False\<rparr>
        (\<lambda>d _ _ _ _ _. d) (\<lambda>d _ _. Tensor (shape d) (map (\<lambda>_. True) (data d)))
        [(''base'', Tensor [2] [1, 2]), (''m'', Tensor [3] [7, 8, 9]), (''a'', Tensor [2] [5, 7])]
    = execute \<lparr>consensus_method = None, sparsification_method = None,
        base_model = ''base'', weight_info = \<lparr>name = ''w'', is_embed = False\<rparr>,
        tensor_parameters = [''a'' \<mapsto> [''weight'' \<mapsto> 1]],
        int8_mask = False, normalize = True, rescale = False\<rparr>
        (\<lambda>d _ _ _ _ _. d) (\<lambda>d _ _. Tensor (shape d) (map (\<lambda>_. True) (data d)))
        [(''base'', Tensor [2] [1, 2]), (''a'', Tensor [2] [5, 7])]"
proof -
  have e: "gtv_loop \<lparr>name = ''w'', is_embed = True\<rparr> ''base''
      (map_of [(''base'', Tensor [1, 2] [1, 2]), (''m'', Tensor [2, 3] [10, 20, 30, 40, 50, 60])])
      [''m'' \<mapsto> [''weight'' \<mapsto> 1]] (Tensor [1, 2] [1, 2]) [''m'']
    = Inr ([\<lparr>model = ''m'', delta = Tensor [1, 2] [9, 18], params = [''weight'' \<mapsto> 1]\<rparr>],
           [UsingSubmatrix ''m'' ''w''])"
    using shape_mismatch_policy [of "''m''" "''base''"
        "[(''base'', Tensor [1, 2] [1, 2]), (''m'', Tensor [2, 3] [10, 20, 30, 40, 50, 60])]"
        "Tensor [2, 3] [10, 20, 30, 40, 50, 60]" "Tensor [1, 2] [1, 2]"
        "\<lparr>name = ''w'', is_embed = True\<rparr>" 1 2 "[]" 2 3
        "[''m'' \<mapsto> [''weight'' \<mapsto> 1]]"
        "[''weight'' \<mapsto> 1]" "[]" "[]" "[]"]
    by (simp add: wf_tensor_def numel_def slice2_def)
  have s: "execute \<lparr>consensus_method = None, sparsification_method = None,
        base_model = ''base'', weight_info = \<lparr>name = ''w'', is_embed = False\<rparr>,
        tensor_parameters = [''a'' \<mapsto> [''weight'' \<mapsto> 1]],
        int8_mask = False, normalize = True, rescale = False\<rparr>
        (\<lambda>d _ _ _ _ _. d) (\<lambda>d _ _. Tensor (shape d) (map (\<lambda>_. True) (data d)))
        [(''base'', Tensor [2] [1, 2]), (''m'', Tensor [3] [7, 8, 9]), (''a'', Tensor [2] [5, 7])]
    = execute \<lparr>consensus_method = None, sparsification_method = None,
        base_model = ''base'', weight_info = \<lparr>name = ''w'', is_embed = False\<rparr>,
        tensor_parameters = [''a'' \<mapsto> [''weight'' \<mapsto> 1]],
        int8_mask = False, normalize = True, rescale = False\<rparr>
        (\<lambda>d _ _ _ _ _. d) (\<lambda>d _ _. Tensor (shape d) (map (\<lambda>_. True) (data d)))
        [(''base'', Tensor [2] [1, 2]), (''a'', Tensor [2] [5, 7])]"
    using shape_mismatch_policy [of "''m''" "''base''"
        "[(''base'', Tensor [2] [1, 2]), (''m'', Tensor [3] [7, 8, 9]), (''a'', Tensor [2] [5, 7])]"
        "Tensor [3] [7, 8, 9]" "Tensor [2] [1, 2]"
        "\<lparr>name = ''w'', is_embed = False\<rparr>"]
    by simp
  show ?thesis using e s by (rule conjI)
qed

text \<open>
  C5 as stated fails for an embedding weight whose model tensor is smaller than the
  base's on an axis: the leading block keeps the smaller extent, the subtraction cannot
  broadcast 2 rows against 3, and the extraction raises instead of giving a descriptor.
\<close>

theorem embed_smaller_counterexample:
  "get_task_vectors \<lparr>name = ''w'', is_embed = True\<rparr> ''base''
     [(''base'', Tensor [3, 1] [1, 2, 3]), (''m'', Tensor [2, 1] [5, 6])]
     [''m'' \<mapsto> [''weight'' \<mapsto> 1]] = Inl RuntimeError"
  by (simp add: get_task_vectors_exact fit_shape_def shape_at_def slice2_def tensor_op_def
      broadcast_shapes_def numel_def)

end
